theory Spec2Isabelle
  imports Main "HOL-Library.Word"
begin

unbundle bit_operations_syntax

section \<open>Ledger data model\<close>

text \<open>
  The ledger is a flat mapping from keylets to entries. A keylet is a typed 256-bit
  address computed by a collision-free hash of its components; the hash is replaced by a
  constructor per entry type, applied to the same components.
\<close>

type_synonym AccountID = nat
type_synonym uint256 = nat
type_synonym Currency = nat
type_synonym Blob = "8 word list"

datatype Keylet =
    K_account AccountID
  | K_ownerDir AccountID
  | K_hook AccountID
  | K_hook_state AccountID uint256
  | K_payChan uint256
  | K_line AccountID AccountID Currency
  | K_depositPreauth AccountID AccountID

datatype TER =
    tesSUCCESS
  | tecINSUFFICIENT_RESERVE | tecUNFUNDED | tecUNFUNDED_PAYMENT | tecNO_DST
  | tecDST_TAG_NEEDED | tecNO_TARGET | tecNO_PERMISSION | tecNO_ENTRY | tecDIR_FULL
  | tecINTERNAL
  | tefINTERNAL | tefBAD_LEDGER | tefEXCEPTION
  | temMALFORMED | temBAD_AMOUNT | temBAD_CURRENCY | temDST_IS_SRC | temINVALID_FLAG
  | temBAD_SIGNATURE | temBAD_SIGNER | temBAD_EXPIRATION | temHOOK_DATA_TOO_LARGE
  | terNO_ACCOUNT | terNO_AUTH

text \<open>
  \<open>STAmount\<close>: drops of XRP, or an issued amount with its currency and issuer. The class
  is declared outside the transactors; values are kept as unbounded integers.
\<close>

datatype STAmount = XRPAmount int | IOUAmount Currency AccountID int

fun isXRP :: "STAmount \<Rightarrow> bool" where
  "isXRP (XRPAmount _) = True"
| "isXRP (IOUAmount _ _ _) = False"

fun amt_value :: "STAmount \<Rightarrow> int" where
  "amt_value (XRPAmount n) = n"
| "amt_value (IOUAmount _ _ n) = n"

fun amt_with :: "STAmount \<Rightarrow> int \<Rightarrow> STAmount" where
  "amt_with (XRPAmount _) n = XRPAmount n"
| "amt_with (IOUAmount c i _) n = IOUAmount c i n"

text \<open>
  The relational and arithmetic operators of \<open>STAmount\<close> accept two drops amounts or two
  amounts of one currency and raise \<open>std::runtime_error\<close> otherwise. The transactors below
  test \<open>comparable\<close> before each such operator and end in \<open>tefEXCEPTION\<close>, the status
  the transaction engine reports for an escaped exception.
\<close>

fun comparable :: "STAmount \<Rightarrow> STAmount \<Rightarrow> bool" where
  "comparable (XRPAmount _) (XRPAmount _) = True"
| "comparable (IOUAmount c _ _) (IOUAmount c' _ _) = (c = c')"
| "comparable _ _ = False"

record AccountRoot =
  ar_Balance :: int
  ar_OwnerCount :: "32 word"
  ar_Flags :: "32 word"

record PayChan =
  pc_Account :: AccountID
  pc_Destination :: AccountID
  pc_Amount :: STAmount
  pc_Balance :: STAmount
  pc_SettleDelay :: "32 word"
  pc_PublicKey :: Blob
  pc_CancelAfter :: "32 word option"
  pc_Expiration :: "32 word option"
  pc_SourceTag :: "32 word option"
  pc_DestinationTag :: "32 word option"
  pc_OwnerNode :: "64 word"
  pc_DestinationNode :: "64 word option"

record Hook =
  hk_Account :: AccountID
  hk_CreateCode :: Blob
  hk_HookOn :: "64 word"
  hk_HookStateCount :: "32 word"
  hk_HookReserveCount :: "32 word"
  hk_HookDataMaxSize :: "32 word"
  hk_OwnerNode :: "64 word"

record HookState =
  hs_HookData :: Blob
  hs_OwnerNode :: "64 word"

datatype SLE =
    AccountRootSLE AccountRoot
  | PayChanSLE PayChan
  | HookSLE Hook
  | HookStateSLE HookState
  | OtherSLE nat

datatype Feature =
    fix1543
  | featurePaychanAndEscrowForTokens
  | fixPayChanRecipientOwnerDir
  | featureDepositAuth

text \<open>
  The view: the entries, the owner directory of every account, the close time of the
  parent ledger (seconds, unsigned 32 bit), the enabled amendments and the reserve
  schedule \<open>fees().accountReserve\<close>.

  Modelled from the spec: the owner directory (\<open>dirInsert\<close>, \<open>dirAdd\<close>, \<open>dirRemove\<close>,
  \<open>dirIsEmpty\<close>, \<open>cdirFirst\<close>, \<open>cdirNext\<close> are declared outside the transactors) is the
  ordered collection of keylets one account owns. It is kept as one page, page hint 0,
  that accepts \<open>dirLimit\<close> entries.
\<close>

record View =
  sles :: "Keylet \<rightharpoonup> SLE"
  ownerDirs :: "AccountID \<Rightarrow> Keylet list"
  dirLimit :: nat
  parentCloseTime :: "32 word"
  enabled :: "Feature set"
  accountReserve :: "nat \<Rightarrow> int"

definition peekAccount :: "View \<Rightarrow> AccountID \<Rightarrow> AccountRoot option" where
  "peekAccount v a =
     (case sles v (K_account a) of Some (AccountRootSLE r) \<Rightarrow> Some r | _ \<Rightarrow> None)"

definition peekHook :: "View \<Rightarrow> AccountID \<Rightarrow> Hook option" where
  "peekHook v a = (case sles v (K_hook a) of Some (HookSLE h) \<Rightarrow> Some h | _ \<Rightarrow> None)"

definition peekHookState :: "View \<Rightarrow> Keylet \<Rightarrow> HookState option" where
  "peekHookState v k = (case sles v k of Some (HookStateSLE s) \<Rightarrow> Some s | _ \<Rightarrow> None)"

definition peekPayChan :: "View \<Rightarrow> uint256 \<Rightarrow> PayChan option" where
  "peekPayChan v c = (case sles v (K_payChan c) of Some (PayChanSLE p) \<Rightarrow> Some p | _ \<Rightarrow> None)"

definition erase :: "View \<Rightarrow> Keylet \<Rightarrow> View" where
  "erase v k = v\<lparr>sles := (sles v)(k := None)\<rparr>"

definition put :: "View \<Rightarrow> Keylet \<Rightarrow> SLE \<Rightarrow> View" where
  "put v k e = v\<lparr>sles := (sles v)(k \<mapsto> e)\<rparr>"

definition dirRemove :: "View \<Rightarrow> AccountID \<Rightarrow> 64 word \<Rightarrow> Keylet \<Rightarrow> View option" where
  "dirRemove v a page k =
     (if page = 0 \<and> k \<in> set (ownerDirs v a)
      then Some (v\<lparr>ownerDirs := (ownerDirs v)(a := remove1 k (ownerDirs v a))\<rparr>)
      else None)"

definition dirInsert :: "View \<Rightarrow> AccountID \<Rightarrow> Keylet \<Rightarrow> (64 word \<times> View) option" where
  "dirInsert v a k =
     (if length (ownerDirs v a) < dirLimit v
      then Some (0, v\<lparr>ownerDirs := (ownerDirs v)(a := ownerDirs v a @ [k])\<rparr>)
      else None)"

text \<open>
  Modelled from the spec: \<open>adjustOwnerCount\<close> (declared outside the transactors) adds the
  signed adjustment to the account's owner count.
\<close>

definition adjustOwnerCount :: "View \<Rightarrow> AccountID \<Rightarrow> int \<Rightarrow> View" where
  "adjustOwnerCount v a d =
     (case peekAccount v a of
        None \<Rightarrow> v
      | Some r \<Rightarrow>
          put v (K_account a)
            (AccountRootSLE (r\<lparr>ar_OwnerCount := word_of_int (uint (ar_OwnerCount r) + d)\<rparr>)))"

section \<open>Hook state: \<open>applyHook.cpp\<close>\<close>

datatype ExitType = ROLLBACK | ACCEPT | REJECT

text \<open>
  \<open>changedState\<close> is a \<open>std::map\<close> from key to (modified, blob): an association list in
  ascending key order, which is the order the commit loop visits.
\<close>

record HookContext =
  account :: AccountID
  changedState :: "(uint256 \<times> bool \<times> Blob) list"
  exitType :: ExitType
  exitReason :: Blob
  exitCode :: "32 word"

fun map_assign :: "uint256 \<Rightarrow> 'v \<Rightarrow> (uint256 \<times> 'v) list \<Rightarrow> (uint256 \<times> 'v) list" where
  "map_assign k x [] = [(k, x)]"
| "map_assign k x ((k', y) # r) =
     (if k < k' then (k, x) # (k', y) # r
      else if k = k' then (k, x) # r
      else (k', y) # map_assign k x r)"

text \<open>
  Modelled from the spec: the macro \<open>COMPUTE_HOOK_DATA_OWNER_COUNT\<close> is declared outside
  the transactors; the functions below take it as the parameter \<open>chdoc\<close>. The spec's
  example formula is \<open>ceil(n / K)\<close>.
\<close>

definition ceil_count :: "nat \<Rightarrow> 32 word \<Rightarrow> 32 word" where
  "ceil_count K n = of_nat ((unat n + K - 1) div K)"

definition setHookState ::
  "(32 word \<Rightarrow> 32 word) \<Rightarrow> HookContext \<Rightarrow> View \<Rightarrow> Keylet \<Rightarrow> Blob \<Rightarrow> TER \<times> View" where
  "setHookState chdoc hookCtx view hookStateKeylet data =
     (case peekAccount view (account hookCtx) of
        None \<Rightarrow> (tefINTERNAL, view)
      | Some sle \<Rightarrow>
     (case peekHook view (account hookCtx) of
        None \<Rightarrow> (tefINTERNAL, view)
      | Some hook \<Rightarrow>
     (let hookDataMax = hk_HookDataMaxSize hook in
      if length data > unat hookDataMax then (temHOOK_DATA_TOO_LARGE, view)
      else
     (let stateCount = hk_HookStateCount hook;
          oldStateReserve = chdoc stateCount;
          oldHookState = peekHookState view hookStateKeylet
      in
      if length data = 0 then
        (case oldHookState of
           None \<Rightarrow> (tesSUCCESS, view)
         | Some old \<Rightarrow>
        (case dirRemove view (account hookCtx) (hs_OwnerNode old) hookStateKeylet of
           None \<Rightarrow> (tefBAD_LEDGER, view)
         | Some v1 \<Rightarrow>
        (let v2 = erase v1 hookStateKeylet;
             stateCount' = (if stateCount > 0 then stateCount - 1 else stateCount);
             v3 = (if chdoc stateCount' < oldStateReserve
                   then adjustOwnerCount v2 (account hookCtx) (-1) else v2);
             v4 = put v3 (K_hook (account hookCtx))
                    (HookSLE (hook\<lparr>hk_HookStateCount := chdoc stateCount'\<rparr>))
         in (tesSUCCESS, v4))))
      else
        (let ownerCount = ar_OwnerCount sle;
             step1 =
               (case oldHookState of
                  Some old \<Rightarrow> Inr (erase view hookStateKeylet)
                | None \<Rightarrow>
                   (let stateCount' = stateCount + 1 in
                    if chdoc stateCount' > oldStateReserve then
                      (let ownerCount' = ownerCount + 1;
                           newReserve = accountReserve view (unat ownerCount')
                       in if ar_Balance sle < newReserve then Inl tecINSUFFICIENT_RESERVE
                          else Inr (put (adjustOwnerCount view (account hookCtx) 1)
                                      (K_hook (account hookCtx))
                                      (HookSLE (hook\<lparr>hk_HookStateCount := stateCount'\<rparr>))))
                    else Inr (put view (K_hook (account hookCtx))
                                (HookSLE (hook\<lparr>hk_HookStateCount := stateCount'\<rparr>)))))
         in
         case step1 of
           Inl e \<Rightarrow> (e, view)
         | Inr v1 \<Rightarrow>
            (let v2 = put v1 hookStateKeylet
                        (HookStateSLE \<lparr>hs_HookData = data, hs_OwnerNode = 0\<rparr>)
             in
             case oldHookState of
               Some old \<Rightarrow> (tesSUCCESS, v2)
             | None \<Rightarrow>
                (case dirInsert v2 (account hookCtx) hookStateKeylet of
                   None \<Rightarrow> (tecDIR_FULL, v2)
                 | Some (page, v3) \<Rightarrow>
                     (tesSUCCESS,
                      put v3 hookStateKeylet
                        (HookStateSLE \<lparr>hs_HookData = data, hs_OwnerNode = page\<rparr>)))))))))"

text \<open>
  \<open>commitChangesToLedger\<close> visits the map in key order and writes every modified entry;
  the status \<open>setHookState\<close> returns is dropped, as in the source.
\<close>

definition commitChangesToLedger ::
  "(32 word \<Rightarrow> 32 word) \<Rightarrow> HookContext \<Rightarrow> View \<Rightarrow> View" where
  "commitChangesToLedger chdoc hookCtx view =
     foldl (\<lambda>v (key, is_modified, blob).
              if is_modified
              then snd (setHookState chdoc hookCtx v (K_hook_state (account hookCtx) key) blob)
              else v)
       view (changedState hookCtx)"

text \<open>
  \<open>hook::apply\<close>. The WASM engine is an external collaborator: \<open>instantiated\<close> says
  whether \<open>wasmer_instantiate\<close> accepted the blob, and \<open>guest\<close> is the effect on the hook
  context of running the exported function \<open>hook\<close>, which reaches the host only through
  the host API below.
\<close>

definition hook_apply ::
  "(32 word \<Rightarrow> 32 word) \<Rightarrow> bool \<Rightarrow> (View \<Rightarrow> HookContext \<Rightarrow> HookContext) \<Rightarrow>
   View \<Rightarrow> AccountID \<Rightarrow> TER \<times> View" where
  "hook_apply chdoc instantiated guest view acc =
     (if \<not> instantiated then (temMALFORMED, view)
      else
        (let hookCtx = guest view
               \<lparr>account = acc, changedState = [], exitType = ROLLBACK,
                exitReason = [], exitCode = -1\<rparr>;
             view' = (if exitType hookCtx \<noteq> ROLLBACK
                      then commitChangesToLedger chdoc hookCtx view else view)
         in if exitType hookCtx = ACCEPT then (tesSUCCESS, view') else (terNO_AUTH, view')))"

subsection \<open>Host API\<close>

text \<open>
  A host function returns an error code, a value, or does not return because it ended
  the guest (\<open>Terminated\<close>). \<open>OutOfBoundsRead\<close> marks a call that read host memory
  outside the guest's linear memory, which C++ leaves undefined.
\<close>

datatype api_error = OUT_OF_BOUNDS | TOO_SMALL | TOO_BIG | INTERNAL_ERROR | DOESNT_EXIST

datatype api_return = Error api_error | Value nat | Terminated | OutOfBoundsRead

definition fromVoid :: "Blob \<Rightarrow> uint256" where
  "fromVoid bytes = foldl (\<lambda>a b. a * 256 + unat b) 0 bytes"

text \<open>
  \<open>set_state\<close>. The pointers and the length are \<open>uint32_t\<close>, so \<open>key_ptr + 32\<close> and
  \<open>data_ptr_in + hook::maxHookDataSize()\<close> are unsigned 32-bit sums. \<open>memory\<close> is the
  guest's linear memory and its length is \<open>memory_length\<close>; \<open>maxHookDataSize\<close> is the
  constant \<open>hook::maxHookDataSize()\<close>, declared outside the transactors.
\<close>

definition set_state ::
  "32 word \<Rightarrow> View \<Rightarrow> Blob \<Rightarrow> HookContext \<Rightarrow> 32 word \<Rightarrow> 32 word \<Rightarrow> 32 word \<Rightarrow>
   api_return \<times> HookContext" where
  "set_state maxHookDataSize view memory hookCtx key_ptr data_ptr_in in_len =
     (if unat (key_ptr + 32) > length memory
         \<or> unat (data_ptr_in + maxHookDataSize) > length memory
      then (Error OUT_OF_BOUNDS, hookCtx)
      else if in_len = 0 then (Error TOO_SMALL, hookCtx)
      else
        (case peekHook view (account hookCtx) of
           None \<Rightarrow> (Error INTERNAL_ERROR, hookCtx)
         | Some sle \<Rightarrow>
             if in_len > hk_HookDataMaxSize sle then (Error TOO_BIG, hookCtx)
             else if unat key_ptr + 32 > length memory
                     \<or> unat data_ptr_in + unat in_len > length memory
             then (OutOfBoundsRead, hookCtx)
             else
               (let key = fromVoid (take 32 (drop (unat key_ptr) memory));
                    blob = take (unat in_len) (drop (unat data_ptr_in) memory)
                in (Value (unat in_len),
                    hookCtx\<lparr>changedState :=
                      map_assign key (True, blob) (changedState hookCtx)\<rparr>))))"

text \<open>
  \<open>_exit\<close>, shared by \<open>accept\<close>, \<open>reject\<close> and \<open>rollback\<close>.

  Modelled from the spec: the macro \<open>NOT_IN_BOUNDS\<close> is declared outside the
  transactors; it checks the range \<open>ptr .. ptr + len\<close> against linear memory.
\<close>

definition NOT_IN_BOUNDS :: "Blob \<Rightarrow> 32 word \<Rightarrow> 32 word \<Rightarrow> bool" where
  "NOT_IN_BOUNDS memory ptr len = (unat ptr + unat len > length memory)"

definition exit_api ::
  "Blob \<Rightarrow> HookContext \<Rightarrow> 32 word \<Rightarrow> 32 word \<Rightarrow> 32 word \<Rightarrow> ExitType \<Rightarrow>
   api_return \<times> HookContext" where
  "exit_api memory hookCtx error_code data_ptr_in in_len exitT =
     (if data_ptr_in \<noteq> 0 \<and> NOT_IN_BOUNDS memory data_ptr_in in_len
      then (Error OUT_OF_BOUNDS, hookCtx)
      else
        (let c1 = (if data_ptr_in \<noteq> 0
                   then hookCtx\<lparr>exitReason :=
                          take (unat in_len) (drop (unat data_ptr_in) memory)\<rparr>
                   else hookCtx)
         in (Terminated, c1\<lparr>exitType := exitT, exitCode := error_code\<rparr>)))"

definition accept ::
  "Blob \<Rightarrow> HookContext \<Rightarrow> 32 word \<Rightarrow> 32 word \<Rightarrow> 32 word \<Rightarrow> api_return \<times> HookContext" where
  "accept memory hookCtx error_code data_ptr_in in_len =
     exit_api memory hookCtx error_code data_ptr_in in_len ACCEPT"

definition reject ::
  "Blob \<Rightarrow> HookContext \<Rightarrow> 32 word \<Rightarrow> 32 word \<Rightarrow> 32 word \<Rightarrow> api_return \<times> HookContext" where
  "reject memory hookCtx error_code data_ptr_in in_len =
     exit_api memory hookCtx error_code data_ptr_in in_len REJECT"

definition rollback ::
  "Blob \<Rightarrow> HookContext \<Rightarrow> 32 word \<Rightarrow> 32 word \<Rightarrow> 32 word \<Rightarrow> api_return \<times> HookContext" where
  "rollback memory hookCtx error_code data_ptr_in in_len =
     exit_api memory hookCtx error_code data_ptr_in in_len ROLLBACK"

section \<open>SetHook: \<open>SetHook.cpp\<close>\<close>

record SetHookTx =
  sh_Account :: AccountID
  sh_CreateCode :: Blob
  sh_HookOn :: "64 word"

text \<open>
  The \<open>do \<dots> while (cdirNext \<dots>)\<close> loop of \<open>destroyEntireHookState\<close>.

  Modelled from the spec: \<open>cdirFirst\<close> and \<open>cdirNext\<close> are declared outside the
  transactors; the iterator tolerates removal of the current item, so the loop visits
  the entries the directory held when the loop started, in order. \<open>cdirFirst\<close> finds
  an entry in every directory that is not empty, so the \<open>tefINTERNAL\<close> return after
  it has no branch here.
\<close>

fun destroyLoop :: "View \<Rightarrow> AccountID \<Rightarrow> Keylet list \<Rightarrow> TER \<times> View" where
  "destroyLoop view acc [] = (tesSUCCESS, view)"
| "destroyLoop view acc (dirEntry # rest) =
     (case sles view dirEntry of
        None \<Rightarrow> (tefBAD_LEDGER, view)
      | Some sleItem \<Rightarrow>
          (case sleItem of
             HookStateSLE st \<Rightarrow>
               (case dirRemove view acc (hs_OwnerNode st) dirEntry of
                  None \<Rightarrow> (tefBAD_LEDGER, view)
                | Some v1 \<Rightarrow> destroyLoop (erase v1 dirEntry) acc rest)
           | _ \<Rightarrow> destroyLoop view acc rest))"

definition destroyEntireHookState :: "View \<Rightarrow> AccountID \<Rightarrow> TER \<times> View" where
  "destroyEntireHookState view acc =
     (if ownerDirs view acc = [] then (tesSUCCESS, view)
      else destroyLoop view acc (ownerDirs view acc))"

definition removeHookFromLedger :: "View \<Rightarrow> AccountID \<Rightarrow> TER \<times> View" where
  "removeHookFromLedger view acc =
     (case peekHook view acc of
        None \<Rightarrow> (tesSUCCESS, view)
      | Some hook \<Rightarrow>
          (case dirRemove view acc (hk_OwnerNode hook) (K_hook acc) of
             None \<Rightarrow> (tefBAD_LEDGER, view)
           | Some v1 \<Rightarrow> (tesSUCCESS, erase v1 (K_hook acc))))"

text \<open>
  \<open>SetHook::setHook\<close>. \<open>blobMax\<close> is \<open>hook::maxHookDataSize()\<close> (positive) and
  \<open>mPriorBalance\<close> the sender's balance before the fee. The quotient
  \<open>ceil(size / (5.0 * blobMax))\<close> is exact in double precision at these sizes and is
  written as a ceiling division.
\<close>

definition setHook :: "nat \<Rightarrow> int \<Rightarrow> View \<Rightarrow> SetHookTx \<Rightarrow> TER \<times> View" where
  "setHook blobMax mPriorBalance view tx =
     (let acc = sh_Account tx;
          hookBlob = sh_CreateCode tx;
          oldHook = peekHook view acc;
          stateCount = (case oldHook of Some h \<Rightarrow> hk_HookStateCount h | None \<Rightarrow> 0);
          previousReserveUnits =
            (case oldHook of Some h \<Rightarrow> uint (hk_HookReserveCount h) | None \<Rightarrow> 0);
          newReserveUnits = int ((length hookBlob + 5 * blobMax - 1) div (5 * blobMax))
      in
      if hookBlob = [] \<and> oldHook = None then
        (case destroyEntireHookState view acc of
           (ter, v1) \<Rightarrow> if ter \<noteq> tesSUCCESS then (ter, v1) else (tesSUCCESS, v1))
      else
        (case removeHookFromLedger view acc of
           (ter, v1) \<Rightarrow>
             if ter \<noteq> tesSUCCESS then (ter, v1)
             else
               (case peekAccount v1 acc of
                  None \<Rightarrow> (tefINTERNAL, v1)
                | Some sle \<Rightarrow>
                    (let oldOwnerCount = ar_OwnerCount sle;
                         addedOwnerCount = newReserveUnits - previousReserveUnits;
                         newReserve = accountReserve v1
                           (nat ((uint oldOwnerCount + addedOwnerCount) mod 2 ^ 64))
                     in
                     if mPriorBalance < newReserve then (tecINSUFFICIENT_RESERVE, v1)
                     else if hookBlob \<noteq> [] then
                       (let hook = \<lparr>hk_Account = acc, hk_CreateCode = hookBlob,
                                    hk_HookOn = sh_HookOn tx,
                                    hk_HookStateCount = stateCount,
                                    hk_HookReserveCount = word_of_int newReserveUnits,
                                    hk_HookDataMaxSize = of_nat blobMax,
                                    hk_OwnerNode = 0\<rparr>;
                            v2 = put v1 (K_hook acc) (HookSLE hook)
                        in case dirInsert v2 acc (K_hook acc) of
                             None \<Rightarrow> (tecDIR_FULL, v2)
                           | Some (page, v3) \<Rightarrow>
                               (tesSUCCESS,
                                adjustOwnerCount
                                  (put v3 (K_hook acc) (HookSLE (hook\<lparr>hk_OwnerNode := page\<rparr>)))
                                  acc addedOwnerCount))
                     else (tesSUCCESS, adjustOwnerCount v1 acc addedOwnerCount)))))"

section \<open>Payment channels: \<open>PayChan.cpp\<close>\<close>

text \<open>
  Modelled from the spec: the flag constants are declared outside the transactors.
  The ledger flags carry the protocol's values; \<open>tfClose\<close> and \<open>tfRenew\<close> carry the
  values the spec gives. The mask \<open>tfPayChanClaimMask\<close> is a parameter of preflight.
\<close>

definition lsfRequireDestTag :: "32 word" where "lsfRequireDestTag = 0x00020000"
definition lsfDisallowXRP :: "32 word" where "lsfDisallowXRP = 0x00080000"
definition lsfDepositAuth :: "32 word" where "lsfDepositAuth = 0x01000000"
definition tfClose :: "32 word" where "tfClose = 1"
definition tfRenew :: "32 word" where "tfRenew = 2"

fun getIssuer :: "STAmount \<Rightarrow> AccountID" where
  "getIssuer (XRPAmount _) = 0"
| "getIssuer (IOUAmount _ i _) = i"

fun getCurrency :: "STAmount \<Rightarrow> Currency" where
  "getCurrency (XRPAmount _) = 0"
| "getCurrency (IOUAmount c _ _) = c"

record PayChanCreateTx =
  cr_Account :: AccountID
  cr_Destination :: AccountID
  cr_Amount :: STAmount
  cr_SettleDelay :: "32 word"
  cr_PublicKey :: Blob
  cr_CancelAfter :: "32 word option"
  cr_SourceTag :: "32 word option"
  cr_DestinationTag :: "32 word option"
  cr_Flags :: "32 word"

record PayChanFundTx =
  fu_Account :: AccountID
  fu_Channel :: uint256
  fu_Amount :: STAmount
  fu_Expiration :: "32 word option"
  fu_Flags :: "32 word"

record PayChanClaimTx =
  cl_Account :: AccountID
  cl_Channel :: uint256
  cl_Balance :: "STAmount option"
  cl_Amount :: "STAmount option"
  cl_Signature :: "Blob option"
  cl_PublicKey :: "Blob option"
  cl_Flags :: "32 word"

datatype RunType = DryRun | WetRun

text \<open>
  The external collaborators, as parameters: the Trust-Line Engine (each call returns
  its status and the view it leaves; a \<open>DryRun\<close> has no side effect, so the callers
  keep only its status), the signature primitives, and the framework's \<open>preflight1\<close>
  and \<open>preflight2\<close>.
\<close>

record Collab =
  trustTransferAllowed :: "View \<Rightarrow> AccountID \<Rightarrow> AccountID \<Rightarrow> STAmount \<Rightarrow> TER"
  trustAdjustLockedBalance ::
    "View \<Rightarrow> Keylet \<Rightarrow> STAmount \<Rightarrow> int \<Rightarrow> RunType \<Rightarrow> TER \<times> View"
  trustTransferLockedBalance ::
    "View \<Rightarrow> AccountID \<Rightarrow> AccountID \<Rightarrow> AccountID \<Rightarrow> STAmount \<Rightarrow> TER \<times> View"
  publicKeyType :: "Blob \<Rightarrow> bool"
  verify :: "Blob \<Rightarrow> Blob \<Rightarrow> Blob \<Rightarrow> bool"
  preflight1 :: "PayChanClaimTx \<Rightarrow> TER"
  preflight2 :: "PayChanClaimTx \<Rightarrow> TER"
  tfPayChanClaimMask :: "32 word"

definition closeChannel :: "Collab \<Rightarrow> View \<Rightarrow> uint256 \<Rightarrow> PayChan \<Rightarrow> TER \<times> View" where
  "closeChannel ext view key slep =
     (let src = pc_Account slep in
      if \<not> comparable (pc_Amount slep) (pc_Balance slep) then (tefEXCEPTION, view)
      else
     (let amount = amt_with (pc_Amount slep)
                     (amt_value (pc_Amount slep) - amt_value (pc_Balance slep));
          sleLine = K_line src (getIssuer amount) (getCurrency amount);
          dry = (if \<not> isXRP amount then
                   (if featurePaychanAndEscrowForTokens \<notin> enabled view then tefINTERNAL
                    else fst (trustAdjustLockedBalance ext view sleLine
                                (amt_with amount (- amt_value amount)) (-1) DryRun))
                 else tesSUCCESS)
      in
      if dry \<noteq> tesSUCCESS then (dry, view)
      else
     (case dirRemove view src (pc_OwnerNode slep) (K_payChan key) of
        None \<Rightarrow> (tefBAD_LEDGER, view)
      | Some v1 \<Rightarrow>
     (case (case pc_DestinationNode slep of
              Some page \<Rightarrow>
                if fixPayChanRecipientOwnerDir \<in> enabled v1
                then dirRemove v1 (pc_Destination slep) page (K_payChan key)
                else Some v1
            | None \<Rightarrow> Some v1) of
        None \<Rightarrow> (tefBAD_LEDGER, v1)
      | Some v2 \<Rightarrow>
     (case peekAccount v2 src of
        None \<Rightarrow> (tefINTERNAL, v2)
      | Some sle \<Rightarrow>
          if isXRP amount then
            (let v3 = put v2 (K_account src)
                        (AccountRootSLE
                           (sle\<lparr>ar_Balance := ar_Balance sle + amt_value amount\<rparr>))
             in (tesSUCCESS, erase (adjustOwnerCount v3 src (-1)) (K_payChan key)))
          else
            (case trustAdjustLockedBalance ext v2 sleLine
                    (amt_with amount (- amt_value amount)) (-1) WetRun of
               (result, v3) \<Rightarrow>
                 if result \<noteq> tesSUCCESS then (result, v3)
                 else (tesSUCCESS, erase (adjustOwnerCount v3 src (-1)) (K_payChan key))))))))"

definition PayChanCreate_preclaim :: "Collab \<Rightarrow> View \<Rightarrow> PayChanCreateTx \<Rightarrow> TER" where
  "PayChanCreate_preclaim ext view tx =
     (let acc = cr_Account tx in
      case peekAccount view acc of
        None \<Rightarrow> terNO_ACCOUNT
      | Some sle \<Rightarrow>
     (let amount = cr_Amount tx;
          balance = ar_Balance sle;
          reserve = accountReserve view (unat (ar_OwnerCount sle + 1))
      in
      if balance < reserve then tecINSUFFICIENT_RESERVE
      else
     (let dst = cr_Destination tx in
      if isXRP amount \<and> balance < reserve + amt_value amount then tecUNFUNDED
      else if featurePaychanAndEscrowForTokens \<notin> enabled view then tecINTERNAL
      else
     (let result = trustTransferAllowed ext view acc dst amount in
      if result \<noteq> tesSUCCESS then result
      else
     (let sleLine = K_line acc (getIssuer amount) (getCurrency amount);
          result = fst (trustAdjustLockedBalance ext view sleLine amount 1 DryRun)
      in
      if result \<noteq> tesSUCCESS then result
      else
     (case peekAccount view dst of
        None \<Rightarrow> tecNO_DST
      | Some sled \<Rightarrow>
          if ar_Flags sled AND lsfRequireDestTag \<noteq> 0 \<and> cr_DestinationTag tx = None
          then tecDST_TAG_NEEDED
          else if featureDepositAuth \<notin> enabled view \<and> ar_Flags sled AND lsfDisallowXRP \<noteq> 0
          then tecNO_TARGET
          else tesSUCCESS))))))"

text \<open>
  \<open>PayChanFund::doApply\<close>. \<open>fundChannel\<close> is its second half, from the peek of the
  sender's account to the end: the destination, reserve and funds checks, the deduction
  (or the wet run of the lock) and the raise of the channel's amount. It runs on the
  channel and view left by the expiration step.
\<close>

definition fundChannel :: "Collab \<Rightarrow> View \<Rightarrow> PayChanFundTx \<Rightarrow> PayChan \<Rightarrow> TER \<times> View" where
  "fundChannel ext v1 tx slep1 =
     (let amount = fu_Amount tx;
          k = K_payChan (fu_Channel tx);
          sleLine = K_line (pc_Account slep1) (getIssuer amount) (getCurrency amount);
          txAccount = fu_Account tx
      in
      case peekAccount v1 txAccount of
        None \<Rightarrow> (tefINTERNAL, v1)
      | Some sle \<Rightarrow>
          if peekAccount v1 (pc_Destination slep1) = None then (tecNO_DST, v1)
          else
     (let balance = ar_Balance sle;
          reserve = accountReserve v1 (unat (ar_OwnerCount sle))
      in
      if balance < reserve then (tecINSUFFICIENT_RESERVE, v1)
      else
     (case (if isXRP amount then
              (if balance < reserve + amt_value amount then Inl (tecUNFUNDED, v1)
               else Inr (put v1 (K_account txAccount)
                           (AccountRootSLE
                              (sle\<lparr>ar_Balance := ar_Balance sle - amt_value amount\<rparr>))))
            else if featurePaychanAndEscrowForTokens \<notin> enabled v1 then Inl (tefINTERNAL, v1)
            else
              (case trustAdjustLockedBalance ext v1 sleLine amount 1 WetRun of
                 (result, v2) \<Rightarrow>
                   if result \<noteq> tesSUCCESS then Inl (tefINTERNAL, v2) else Inr v2)) of
        Inl r \<Rightarrow> r
      | Inr v2 \<Rightarrow>
          if \<not> comparable (pc_Amount slep1) amount then (tefEXCEPTION, v2)
          else (tesSUCCESS,
                put v2 k
                  (PayChanSLE
                     (slep1\<lparr>pc_Amount := amt_with (pc_Amount slep1)
                        (amt_value (pc_Amount slep1) + amt_value amount)\<rparr>))))))"

definition PayChanFund_doApply :: "Collab \<Rightarrow> View \<Rightarrow> PayChanFundTx \<Rightarrow> TER \<times> View" where
  "PayChanFund_doApply ext view tx =
     (case peekPayChan view (fu_Channel tx) of
        None \<Rightarrow> (tecNO_ENTRY, view)
      | Some slep \<Rightarrow>
     (let amount = fu_Amount tx;
          k = K_payChan (fu_Channel tx);
          sleLine = K_line (pc_Account slep) (getIssuer amount) (getCurrency amount);
          dry = (if \<not> isXRP amount \<and> featurePaychanAndEscrowForTokens \<in> enabled view
                 then fst (trustAdjustLockedBalance ext view sleLine amount 1 DryRun)
                 else tesSUCCESS)
      in
      if dry \<noteq> tesSUCCESS then (dry, view)
      else
     (let src = pc_Account slep;
          txAccount = fu_Account tx;
          expiration = pc_Expiration slep;
          cancelAfter = pc_CancelAfter slep;
          closeTime = parentCloseTime view
      in
      if (case cancelAfter of Some c \<Rightarrow> closeTime \<ge> c | None \<Rightarrow> False)
         \<or> (case expiration of Some e \<Rightarrow> closeTime \<ge> e | None \<Rightarrow> False)
      then closeChannel ext view (fu_Channel tx) slep
      else if src \<noteq> txAccount then (tecNO_PERMISSION, view)
      else
     (case fu_Expiration tx of
        None \<Rightarrow> fundChannel ext view tx slep
      | Some extend' \<Rightarrow>
          (let minExpiration0 = closeTime + pc_SettleDelay slep;
               minExpiration =
                 (case expiration of
                    Some e \<Rightarrow> if e < minExpiration0 then e else minExpiration0
                  | None \<Rightarrow> minExpiration0)
           in if extend' < minExpiration then (temBAD_EXPIRATION, view)
              else fundChannel ext
                     (put view k (PayChanSLE (slep\<lparr>pc_Expiration := Some extend'\<rparr>)))
                     tx (slep\<lparr>pc_Expiration := Some extend'\<rparr>))))))"

text \<open>
  Modelled from the spec: \<open>serializePayChanAuthorization\<close> is declared outside the
  transactors. The message is \<open>"CLM\0"\<close>, the 32-byte channel id and the amount: for
  XRP the drops as a big-endian 64-bit integer, for an issued amount its value followed
  by currency code and issuer.
\<close>

fun be_bytes :: "nat \<Rightarrow> nat \<Rightarrow> Blob" where
  "be_bytes 0 x = []"
| "be_bytes (Suc n) x = be_bytes n (x div 256) @ [of_nat (x mod 256)]"

definition serializePayChanAuthorization :: "uint256 \<Rightarrow> int \<Rightarrow> Blob" where
  "serializePayChanAuthorization key drops =
     [0x43, 0x4C, 0x4D, 0x00] @ be_bytes 32 key @ be_bytes 8 (nat drops)"

definition serializePayChanAuthorizationIOU ::
  "uint256 \<Rightarrow> int \<Rightarrow> Currency \<Rightarrow> AccountID \<Rightarrow> Blob" where
  "serializePayChanAuthorizationIOU key iou currency issuer =
     [0x43, 0x4C, 0x4D, 0x00] @ be_bytes 32 key @ be_bytes 8 (nat iou)
       @ be_bytes 20 currency @ be_bytes 20 issuer"

text \<open>
  \<open>PayChanClaim::preflight\<close>. The expression \<open>*amt ? *amt : reqBalance\<close> reads the
  optional \<open>amt\<close> without testing that it holds a value. When the Amount field is
  absent that read is undefined behaviour; what it yields is the parameter
  \<open>disengaged\<close>, the content of the optional's unused storage.
\<close>

definition PayChanClaim_preflight ::
  "Collab \<Rightarrow> Feature set \<Rightarrow> STAmount \<Rightarrow> PayChanClaimTx \<Rightarrow> TER" where
  "PayChanClaim_preflight ext rules disengaged tx =
     (let ret = preflight1 ext tx in
      if ret \<noteq> tesSUCCESS then ret
      else
     (let bal = cl_Balance tx; amt = cl_Amount tx in
      if (case bal of
            Some b \<Rightarrow> (\<not> isXRP b \<and> featurePaychanAndEscrowForTokens \<notin> rules)
                       \<or> amt_value b \<le> 0
          | None \<Rightarrow> False)
      then temBAD_AMOUNT
      else if (case amt of
                 Some a \<Rightarrow> (\<not> isXRP a \<and> featurePaychanAndEscrowForTokens \<notin> rules)
                            \<or> amt_value a \<le> 0
               | None \<Rightarrow> False)
      then temBAD_AMOUNT
      else if (case (bal, amt) of (Some b, Some a) \<Rightarrow> \<not> comparable b a | _ \<Rightarrow> False)
      then tefEXCEPTION
      else if (case (bal, amt) of
                 (Some b, Some a) \<Rightarrow> amt_value b > amt_value a | _ \<Rightarrow> False)
      then temBAD_AMOUNT
      else
     (let flags = cl_Flags tx in
      if fix1543 \<in> rules \<and> flags AND tfPayChanClaimMask ext \<noteq> 0 then temINVALID_FLAG
      else if flags AND tfClose \<noteq> 0 \<and> flags AND tfRenew \<noteq> 0 then temMALFORMED
      else
     (case cl_Signature tx of
        None \<Rightarrow> preflight2 ext tx
      | Some sig \<Rightarrow>
     (case (cl_PublicKey tx, bal) of
        (Some pk, Some reqBalance) \<Rightarrow>
          (let derefAmt = (case amt of Some a \<Rightarrow> a | None \<Rightarrow> disengaged);
               authAmt = (if amt_value derefAmt \<noteq> 0 then derefAmt else reqBalance)
           in
           if \<not> comparable reqBalance authAmt then tefEXCEPTION
           else if amt_value reqBalance > amt_value authAmt then temBAD_AMOUNT
           else if \<not> publicKeyType ext pk then temMALFORMED
           else
             (let msg =
                (if isXRP authAmt
                 then serializePayChanAuthorization (cl_Channel tx) (amt_value authAmt)
                 else serializePayChanAuthorizationIOU (cl_Channel tx) (amt_value authAmt)
                        (getCurrency authAmt) (getIssuer authAmt))
              in if \<not> verify ext pk msg sig then temBAD_SIGNATURE
                 else preflight2 ext tx))
      | _ \<Rightarrow> temMALFORMED)))))"

text \<open>
  \<open>PayChanClaim::doApply\<close>. \<open>claimBalance\<close> is the block guarded by
  \<open>if (ctx_.tx[~sfBalance])\<close>: it ends the transaction with a status (\<open>Inl\<close>) or
  hands the updated channel and view on (\<open>Inr\<close>). Reading \<open>ctx_.tx[sfPublicKey]\<close> when
  the field is absent raises. \<open>curExpiration\<close> is a proxy into the channel entry, not
  a copy: the expiration sweep reads it before anything is written, and the \<open>tfClose\<close>
  block reads through it the expiration the entry holds by then.
\<close>

definition claimBalance ::
  "Collab \<Rightarrow> View \<Rightarrow> PayChanClaimTx \<Rightarrow> PayChan \<Rightarrow> STAmount \<Rightarrow>
   (TER \<times> View) + (PayChan \<times> View)" where
  "claimBalance ext view tx slep reqBalance =
     (let src = pc_Account slep; dst = pc_Destination slep; txAccount = cl_Account tx;
          chanBalance = pc_Balance slep; chanFunds = pc_Amount slep
      in
      if txAccount = dst \<and> cl_Signature tx = None then Inl (temBAD_SIGNATURE, view)
      else if cl_Signature tx \<noteq> None \<and> cl_PublicKey tx = None then Inl (tefEXCEPTION, view)
      else if cl_Signature tx \<noteq> None \<and> cl_PublicKey tx \<noteq> Some (pc_PublicKey slep)
      then Inl (temBAD_SIGNER, view)
      else if \<not> comparable reqBalance chanFunds then Inl (tefEXCEPTION, view)
      else if amt_value reqBalance > amt_value chanFunds then Inl (tecUNFUNDED_PAYMENT, view)
      else if \<not> comparable reqBalance chanBalance then Inl (tefEXCEPTION, view)
      else if amt_value reqBalance \<le> amt_value chanBalance
      then Inl (tecUNFUNDED_PAYMENT, view)
      else
     (case peekAccount view dst of
        None \<Rightarrow> Inl (tecNO_DST, view)
      | Some sled \<Rightarrow>
     (let depositAuth = (featureDepositAuth \<in> enabled view) in
      if \<not> depositAuth \<and> txAccount = src \<and> ar_Flags sled AND lsfDisallowXRP \<noteq> 0
      then Inl (tecNO_TARGET, view)
      else if depositAuth \<and> ar_Flags sled AND lsfDepositAuth \<noteq> 0 \<and> txAccount \<noteq> dst
               \<and> sles view (K_depositPreauth dst txAccount) = None
      then Inl (tecNO_PERMISSION, view)
      else
     (let slep1 = slep\<lparr>pc_Balance := reqBalance\<rparr>;
          v1 = put view (K_payChan (cl_Channel tx)) (PayChanSLE slep1);
          reqDelta = amt_with reqBalance (amt_value reqBalance - amt_value chanBalance)
      in
      if isXRP reqDelta then
        Inr (slep1,
             put v1 (K_account dst)
               (AccountRootSLE (sled\<lparr>ar_Balance := ar_Balance sled + amt_value reqDelta\<rparr>)))
      else if featurePaychanAndEscrowForTokens \<notin> enabled v1 then Inl (tefINTERNAL, v1)
      else
        (case trustTransferLockedBalance ext v1 txAccount src dst reqDelta of
           (result, v2) \<Rightarrow>
             if result \<noteq> tesSUCCESS then Inl (result, v2) else Inr (slep1, v2))))))"

definition PayChanClaim_doApply :: "Collab \<Rightarrow> View \<Rightarrow> PayChanClaimTx \<Rightarrow> TER \<times> View" where
  "PayChanClaim_doApply ext view tx =
     (case peekPayChan view (cl_Channel tx) of
        None \<Rightarrow> (tecNO_TARGET, view)
      | Some slep \<Rightarrow>
     (let src = pc_Account slep; dst = pc_Destination slep; txAccount = cl_Account tx;
          k = K_payChan (cl_Channel tx);
          curExpiration = pc_Expiration slep;
          cancelAfter = pc_CancelAfter slep;
          closeTime = parentCloseTime view
      in
      if (case cancelAfter of Some c \<Rightarrow> closeTime \<ge> c | None \<Rightarrow> False)
         \<or> (case curExpiration of Some e \<Rightarrow> closeTime \<ge> e | None \<Rightarrow> False)
      then closeChannel ext view (cl_Channel tx) slep
      else if txAccount \<noteq> src \<and> txAccount \<noteq> dst then (tecNO_PERMISSION, view)
      else
     (case (case cl_Balance tx of
              None \<Rightarrow> Inr (slep, view)
            | Some reqBalance \<Rightarrow> claimBalance ext view tx slep reqBalance) of
        Inl r \<Rightarrow> r
      | Inr (slep1, v1) \<Rightarrow>
     (case (if cl_Flags tx AND tfRenew \<noteq> 0 then
              (if src \<noteq> txAccount then Inl (tecNO_PERMISSION, v1)
               else Inr (slep1\<lparr>pc_Expiration := None\<rparr>,
                         put v1 k (PayChanSLE (slep1\<lparr>pc_Expiration := None\<rparr>))))
            else Inr (slep1, v1)) of
        Inl r \<Rightarrow> r
      | Inr (slep2, v2) \<Rightarrow>
          if cl_Flags tx AND tfClose \<noteq> 0 then
            (if dst = txAccount
                \<or> (comparable (pc_Balance slep2) (pc_Amount slep2)
                    \<and> amt_value (pc_Balance slep2) = amt_value (pc_Amount slep2))
             then closeChannel ext v2 (cl_Channel tx) slep2
             else
               (let settleExpiration = closeTime + pc_SettleDelay slep2 in
                if (case pc_Expiration slep2 of
                      None \<Rightarrow> True | Some e \<Rightarrow> e > settleExpiration)
                then (tesSUCCESS,
                      put v2 k (PayChanSLE (slep2\<lparr>pc_Expiration := Some settleExpiration\<rparr>)))
                else (tesSUCCESS, v2)))
          else (tesSUCCESS, v2)))))"

section \<open>Concrete ledgers\<close>

text \<open>
  Account 1 with an installed hook (data limit 128) that has written \<open>n\<close> state entries.
\<close>

definition hookA :: "32 word \<Rightarrow> Hook" where
  "hookA n = \<lparr>hk_Account = 1, hk_CreateCode = [0, 97, 115, 109], hk_HookOn = 0,
              hk_HookStateCount = n, hk_HookReserveCount = 1, hk_HookDataMaxSize = 128,
              hk_OwnerNode = 0\<rparr>"

definition view_hook :: View where
  "view_hook =
     \<lparr>sles = [K_account 1 \<mapsto>
                 AccountRootSLE \<lparr>ar_Balance = 5000000, ar_OwnerCount = 1, ar_Flags = 0\<rparr>,
              K_hook 1 \<mapsto> HookSLE (hookA 0)],
      ownerDirs = (\<lambda>_. [])(1 := [K_hook 1]),
      dirLimit = 32, parentCloseTime = 700000000, enabled = {},
      accountReserve = (\<lambda>n. 200000 + 50000 * int n)\<rparr>"

definition view_three_states :: View where
  "view_three_states =
     \<lparr>sles = [K_account 1 \<mapsto>
                 AccountRootSLE \<lparr>ar_Balance = 5000000, ar_OwnerCount = 2, ar_Flags = 0\<rparr>,
              K_hook 1 \<mapsto> HookSLE (hookA 3),
              K_hook_state 1 1 \<mapsto> HookStateSLE \<lparr>hs_HookData = [1], hs_OwnerNode = 0\<rparr>,
              K_hook_state 1 2 \<mapsto> HookStateSLE \<lparr>hs_HookData = [2], hs_OwnerNode = 0\<rparr>,
              K_hook_state 1 3 \<mapsto> HookStateSLE \<lparr>hs_HookData = [3], hs_OwnerNode = 0\<rparr>],
      ownerDirs = (\<lambda>_. [])(1 := [K_hook 1, K_hook_state 1 1, K_hook_state 1 2,
                                      K_hook_state 1 3]),
      dirLimit = 32, parentCloseTime = 700000000, enabled = {},
      accountReserve = (\<lambda>n. 200000 + 50000 * int n)\<rparr>"

text \<open>
  The same account after its hook was removed: three state entries are left, and the
  owner count still holds the one unit they consumed.
\<close>

definition view_orphan_states :: View where
  "view_orphan_states =
     \<lparr>sles = [K_account 1 \<mapsto>
                 AccountRootSLE \<lparr>ar_Balance = 5000000, ar_OwnerCount = 1, ar_Flags = 0\<rparr>,
              K_hook_state 1 1 \<mapsto> HookStateSLE \<lparr>hs_HookData = [1], hs_OwnerNode = 0\<rparr>,
              K_hook_state 1 2 \<mapsto> HookStateSLE \<lparr>hs_HookData = [2], hs_OwnerNode = 0\<rparr>,
              K_hook_state 1 3 \<mapsto> HookStateSLE \<lparr>hs_HookData = [3], hs_OwnerNode = 0\<rparr>],
      ownerDirs = (\<lambda>_. [])(1 := [K_hook_state 1 1, K_hook_state 1 2, K_hook_state 1 3]),
      dirLimit = 32, parentCloseTime = 700000000, enabled = {},
      accountReserve = (\<lambda>n. 200000 + 50000 * int n)\<rparr>"

definition ctxA :: HookContext where
  "ctxA = \<lparr>account = 1, changedState = [], exitType = ROLLBACK, exitReason = [],
           exitCode = -1\<rparr>"

text \<open>
  One page of linear memory (65536 bytes): the key 7 in bytes 0..31, four data bytes at
  offset 32.
\<close>

definition mem64k :: Blob where
  "mem64k = replicate 31 0 @ [7] @ [222, 173, 190, 239] @ replicate 65500 0"

text \<open>A guest that calls \<open>set_state(0, 32, 4)\<close> and then \<open>reject(0, 0, 0)\<close>.\<close>

definition guest_set_reject :: "View \<Rightarrow> HookContext \<Rightarrow> HookContext" where
  "guest_set_reject view hookCtx =
     snd (reject mem64k (snd (set_state 128 view mem64k hookCtx 0 32 4)) 0 0 0)"

text \<open>
  A guest that calls \<open>set_state(0, 32, 4)\<close> and then \<open>accept(0, 0, 0)\<close>, and a guest
  that returns without calling the host.
\<close>

definition guest_set_accept :: "View \<Rightarrow> HookContext \<Rightarrow> HookContext" where
  "guest_set_accept view hookCtx =
     snd (accept mem64k (snd (set_state 128 view mem64k hookCtx 0 32 4)) 0 0 0)"

definition guest_idle :: "View \<Rightarrow> HookContext \<Rightarrow> HookContext" where
  "guest_idle view hookCtx = hookCtx"



text \<open>
  The channel of the XRP scenario: owner 1, destination 2, 100000 drops funded of which
  40000 are claimed, settle delay 86400. \<open>view_chan\<close> is a ledger holding it under
  key 9, with a bystander account 3, at close time 700000000.
\<close>

definition chan9 :: PayChan where
  "chan9 = \<lparr>pc_Account = 1, pc_Destination = 2, pc_Amount = XRPAmount 100000,
            pc_Balance = XRPAmount 40000, pc_SettleDelay = 86400, pc_PublicKey = [2, 171],
            pc_CancelAfter = None, pc_Expiration = None, pc_SourceTag = None,
            pc_DestinationTag = None, pc_OwnerNode = 0, pc_DestinationNode = None\<rparr>"

definition view_chan :: "PayChan \<Rightarrow> Feature set \<Rightarrow> View" where
  "view_chan p fs =
     \<lparr>sles = [K_account 1 \<mapsto>
                 AccountRootSLE \<lparr>ar_Balance = 900000, ar_OwnerCount = 1, ar_Flags = 0\<rparr>,
              K_account 2 \<mapsto>
                 AccountRootSLE \<lparr>ar_Balance = 500000, ar_OwnerCount = 0, ar_Flags = 0\<rparr>,
              K_account 3 \<mapsto>
                 AccountRootSLE \<lparr>ar_Balance = 500000, ar_OwnerCount = 0, ar_Flags = 0\<rparr>,
              K_payChan 9 \<mapsto> PayChanSLE p],
      ownerDirs = (\<lambda>_. [])(1 := [K_payChan 9]),
      dirLimit = 32, parentCloseTime = 700000000, enabled = fs,
      accountReserve = (\<lambda>n. 100000 + 100000 * int n)\<rparr>"

text \<open>
  The ledger of end-to-end scenario 1 before the create: owner 1 with 1000000 drops and
  owner count 0, reserve(1) = 200000, destination 2 without flags, no amendment enabled.
\<close>

definition view_create :: View where
  "view_create =
     \<lparr>sles = [K_account 1 \<mapsto>
                 AccountRootSLE \<lparr>ar_Balance = 1000000, ar_OwnerCount = 0, ar_Flags = 0\<rparr>,
              K_account 2 \<mapsto>
                 AccountRootSLE \<lparr>ar_Balance = 500000, ar_OwnerCount = 0, ar_Flags = 0\<rparr>],
      ownerDirs = (\<lambda>_. []),
      dirLimit = 32, parentCloseTime = 700000000, enabled = {},
      accountReserve = (\<lambda>n. 100000 + 100000 * int n)\<rparr>"

definition create_tx :: PayChanCreateTx where
  "create_tx = \<lparr>cr_Account = 1, cr_Destination = 2, cr_Amount = XRPAmount 100000,
                cr_SettleDelay = 86400, cr_PublicKey = [2, 171], cr_CancelAfter = None,
                cr_SourceTag = None, cr_DestinationTag = None, cr_Flags = 0\<rparr>"

text \<open>
  A collaborator set for the concrete runs: the trust-line engine answers \<open>lock amt\<close>
  and changes nothing, a signature verifies when it equals the message, and the
  framework's preflight steps succeed.
\<close>

definition collab :: "(STAmount \<Rightarrow> TER) \<Rightarrow> Collab" where
  "collab lock =
     \<lparr>trustTransferAllowed = (\<lambda>v a b amt. tesSUCCESS),
      trustAdjustLockedBalance = (\<lambda>v line amt d run. (lock amt, v)),
      trustTransferLockedBalance = (\<lambda>v actor s d amt. (lock amt, v)),
      publicKeyType = (\<lambda>pk. pk \<noteq> []),
      verify = (\<lambda>pk msg sig. sig = msg),
      preflight1 = (\<lambda>tx. tesSUCCESS),
      preflight2 = (\<lambda>tx. tesSUCCESS),
      tfPayChanClaimMask = 0x7FFFFFFC\<rparr>"

text \<open>
  An owner with no spare tokens: locking more (a positive adjustment) fails, releasing
  succeeds.
\<close>

definition no_spare_tokens :: "STAmount \<Rightarrow> TER" where
  "no_spare_tokens amt = (if amt_value amt > 0 then tecUNFUNDED_PAYMENT else tesSUCCESS)"


definition chan_iou :: PayChan where
  "chan_iou = chan9\<lparr>pc_Amount := IOUAmount 840 5 100, pc_Balance := IOUAmount 840 5 40,
                    pc_CancelAfter := Some 600000000\<rparr>"

definition chan_elapsed :: PayChan where
  "chan_elapsed = chan9\<lparr>pc_CancelAfter := Some 600000000\<rparr>"

definition fund_iou :: PayChanFundTx where
  "fund_iou = \<lparr>fu_Account = 1, fu_Channel = 9, fu_Amount = IOUAmount 840 5 10,
               fu_Expiration = None, fu_Flags = 0\<rparr>"

definition fund_xrp :: "AccountID \<Rightarrow> 32 word option \<Rightarrow> PayChanFundTx" where
  "fund_xrp sender expiration =
     \<lparr>fu_Account = sender, fu_Channel = 9, fu_Amount = XRPAmount 50000,
      fu_Expiration = expiration, fu_Flags = 0\<rparr>"

definition claim_tx :: "AccountID \<Rightarrow> int \<Rightarrow> Blob option \<Rightarrow> PayChanClaimTx" where
  "claim_tx sender drops sig =
     \<lparr>cl_Account = sender, cl_Channel = 9, cl_Balance = Some (XRPAmount drops),
      cl_Amount = None, cl_Signature = sig,
      cl_PublicKey = (case sig of None \<Rightarrow> None | Some _ \<Rightarrow> Some [2, 171]),
      cl_Flags = 0\<rparr>"

text \<open>The same channel with an expiration 100 seconds ahead of the close time.\<close>

definition chan_expiring :: PayChan where
  "chan_expiring = chan9\<lparr>pc_Expiration := Some 700000100\<rparr>"

text \<open>The same channel with the largest settle delay the field can hold.\<close>

definition chan_max_delay :: PayChan where
  "chan_max_delay = chan9\<lparr>pc_SettleDelay := 4294967295\<rparr>"

section \<open>Hook runtime: properties\<close>

lemmas view_ops =
  peekAccount_def peekHook_def peekHookState_def peekPayChan_def dirRemove_def
  dirInsert_def erase_def put_def adjustOwnerCount_def

lemma fromVoid_zeros: "foldl (\<lambda>a b. a * 256 + unat b) 0 (replicate n (0::8 word)) = 0"
  by (induction n) simp_all

lemma fromVoid_mem64k: "fromVoid (take 32 mem64k) = 7"
  by (simp add: fromVoid_def mem64k_def fromVoid_zeros)

lemma length_mem64k: "length mem64k = 65536"
  by (simp add: mem64k_def)

lemma set_state_mem64k:
  "set_state 128 view_hook mem64k ctxA 0 32 4 =
     (Value 4, ctxA\<lparr>changedState := [(7, True, [222, 173, 190, 239])]\<rparr>)"
proof -
  have "take 4 (drop 32 mem64k) = [222, 173, 190, 239]"
    by (simp add: mem64k_def)
  then show ?thesis
    by (simp add: set_state_def length_mem64k peekHook_def view_hook_def ctxA_def hookA_def
        fromVoid_mem64k)
qed

lemma guest_set_reject_run:
  "guest_set_reject view_hook ctxA =
     ctxA\<lparr>changedState := [(7, True, [222, 173, 190, 239])], exitType := REJECT,
          exitCode := 0\<rparr>"
  by (simp add: guest_set_reject_def set_state_mem64k reject_def exit_api_def)

lemma guest_set_accept_run:
  "guest_set_accept view_hook ctxA =
     ctxA\<lparr>changedState := [(7, True, [222, 173, 190, 239])], exitType := ACCEPT,
          exitCode := 0\<rparr>"
  by (simp add: guest_set_accept_def set_state_mem64k accept_def exit_api_def)

subsection \<open>C1: commit discipline of \<open>hook::apply\<close>\<close>

text \<open>
  The commit writes modified entries only: a buffer of entries that were merely read
  leaves the ledger as it is.
\<close>

lemma commitChangesToLedger_unmodified:
  assumes "\<forall>(key, is_modified, blob) \<in> set (changedState hookCtx). \<not> is_modified"
  shows "commitChangesToLedger chdoc hookCtx view = view"
proof -
  have "foldl (\<lambda>v (key, is_modified, blob).
                 if is_modified
                 then snd (setHookState chdoc hookCtx v
                             (K_hook_state (account hookCtx) key) blob)
                 else v) view xs = view"
    if "\<forall>(key, is_modified, blob) \<in> set xs. \<not> is_modified" for xs
    using that by (induction xs arbitrary: view) auto
  with assms show ?thesis by (simp add: commitChangesToLedger_def)
qed

text \<open>
  C1, as stated, fails. The claim says the change buffer reaches the ledger if and only
  if the hook exits with ACCEPT, and that a REJECT discards it. The guest below stages
  one entry with \<open>set_state\<close> and calls \<open>reject\<close>: \<open>hook::apply\<close> returns
  \<open>terNO_AUTH\<close>, and the staged entry, absent before, is in the ledger afterwards,
  because the commit is guarded by \<open>exitType != ROLLBACK\<close>.
\<close>

theorem reject_commits_counterexample:
  "exitType (guest_set_reject view_hook ctxA) = REJECT
   \<and> fst (hook_apply (ceil_count 5) True guest_set_reject view_hook 1) = terNO_AUTH
   \<and> peekHookState view_hook (K_hook_state 1 7) = None
   \<and> peekHookState (snd (hook_apply (ceil_count 5) True guest_set_reject view_hook 1))
        (K_hook_state 1 7)
      = Some \<lparr>hs_HookData = [222, 173, 190, 239], hs_OwnerNode = 0\<rparr>"
  using guest_set_reject_run
  apply (simp add: hook_apply_def ctxA_def commitChangesToLedger_def)
  apply (simp add: setHookState_def view_ops ceil_count_def view_hook_def hookA_def)
  done

text \<open>
  What one write of the commit loop does. For a non-empty blob within the hook's data
  limit, on a ledger that holds the account and its hook and whose balance covers the
  reserve for one more owned object: afterwards the ledger holds the blob at the key,
  every entry other than that key, the account and the hook is as before, and the
  account keeps its balance and gains at most one owner count.
\<close>

lemma setHookState_write:
  assumes acc: "peekAccount view (account hookCtx) = Some sle"
    and hk: "peekHook view (account hookCtx) = Some hook"
    and ne: "data \<noteq> []" and fit: "length data \<le> unat (hk_HookDataMaxSize hook)"
    and res: "accountReserve view (unat (ar_OwnerCount sle + 1)) \<le> ar_Balance sle"
    and k: "k = K_hook_state (account hookCtx) key"
  shows "map_option hs_HookData
           (peekHookState (snd (setHookState chdoc hookCtx view k data)) k) = Some data"
    and "\<forall>k'. k' \<noteq> k \<and> k' \<noteq> K_account (account hookCtx) \<and> k' \<noteq> K_hook (account hookCtx)
           \<longrightarrow> sles (snd (setHookState chdoc hookCtx view k data)) k' = sles view k'"
    and "\<exists>sle'. peekAccount (snd (setHookState chdoc hookCtx view k data)) (account hookCtx)
                  = Some sle'
           \<and> ar_Balance sle' = ar_Balance sle
           \<and> (ar_OwnerCount sle' = ar_OwnerCount sle
               \<or> ar_OwnerCount sle' = ar_OwnerCount sle + 1)"
    and "\<exists>hook'. peekHook (snd (setHookState chdoc hookCtx view k data)) (account hookCtx)
                   = Some hook'
           \<and> hk_HookDataMaxSize hook' = hk_HookDataMaxSize hook"
    and "accountReserve (snd (setHookState chdoc hookCtx view k data)) = accountReserve view"
  using assms
  by (auto simp: setHookState_def view_ops Let_def split: option.splits SLE.splits)


text \<open>
  The commit loop, entry by entry. The keys of a \<open>std::map\<close> are distinct, so a
  written entry is not touched again by the writes that follow it.
\<close>

lemma setHookState_ctx:
  "setHookState chdoc (hookCtx\<lparr>changedState := ys\<rparr>) view k data
     = setHookState chdoc hookCtx view k data"
proof -
  have a: "account (hookCtx\<lparr>changedState := ys\<rparr>) = account hookCtx" by simp
  show ?thesis unfolding setHookState_def a ..
qed

lemma commit_Nil: "commitChangesToLedger chdoc (hookCtx\<lparr>changedState := []\<rparr>) view = view"
  by (simp add: commitChangesToLedger_def)

lemma commit_Cons:
  "commitChangesToLedger chdoc (hookCtx\<lparr>changedState := (key, m, blob) # xs\<rparr>) view
     = commitChangesToLedger chdoc (hookCtx\<lparr>changedState := xs\<rparr>)
         (if m then snd (setHookState chdoc hookCtx view
                           (K_hook_state (account hookCtx) key) blob)
          else view)"
  by (simp add: commitChangesToLedger_def setHookState_ctx cong: if_cong)

lemma commit_writes:
  assumes "peekAccount view (account hookCtx) = Some sle"
    and "peekHook view (account hookCtx) = Some hook"
    and "distinct (map fst xs)"
    and "\<forall>(key, m, blob) \<in> set xs.
           m \<longrightarrow> blob \<noteq> [] \<and> length blob \<le> unat (hk_HookDataMaxSize hook)"
    and "\<forall>n \<le> length xs.
           accountReserve view (unat (ar_OwnerCount sle + of_nat n)) \<le> ar_Balance sle"
  shows "(\<forall>(key, m, blob) \<in> set xs.
            m \<longrightarrow> map_option hs_HookData
                  (peekHookState
                     (commitChangesToLedger chdoc (hookCtx\<lparr>changedState := xs\<rparr>) view)
                     (K_hook_state (account hookCtx) key)) = Some blob)
       \<and> (\<forall>key. (\<forall>blob. (key, True, blob) \<notin> set xs) \<longrightarrow>
            sles (commitChangesToLedger chdoc (hookCtx\<lparr>changedState := xs\<rparr>) view)
              (K_hook_state (account hookCtx) key)
            = sles view (K_hook_state (account hookCtx) key))"
  using assms
proof (induction xs arbitrary: view sle hook)
  case Nil
  then show ?case by (simp add: commit_Nil)
next
  case (Cons x xs)
  obtain key0 m0 blob0 where x: "x = (key0, m0, blob0)" by (cases x)
  let ?k0 = "K_hook_state (account hookCtx) key0"
  let ?v1 = "if m0 then snd (setHookState chdoc hookCtx view ?k0 blob0) else view"
  have step: "commitChangesToLedger chdoc (hookCtx\<lparr>changedState := x # xs\<rparr>) view
        = commitChangesToLedger chdoc (hookCtx\<lparr>changedState := xs\<rparr>) ?v1"
    by (simp add: x commit_Cons)
  have fresh: "\<forall>blob. (key0, True, blob) \<notin> set xs"
    using Cons.prems(3) by (force simp: x)
  have d: "distinct (map fst xs)" using Cons.prems(3) by simp
  have res0: "accountReserve view (unat (ar_OwnerCount sle + 1)) \<le> ar_Balance sle"
    using Cons.prems(5) [rule_format, of 1] by simp
  have inv: "\<exists>sle' hook'. peekAccount ?v1 (account hookCtx) = Some sle'
        \<and> peekHook ?v1 (account hookCtx) = Some hook'
        \<and> hk_HookDataMaxSize hook' = hk_HookDataMaxSize hook
        \<and> ar_Balance sle' = ar_Balance sle
        \<and> (ar_OwnerCount sle' = ar_OwnerCount sle \<or> ar_OwnerCount sle' = ar_OwnerCount sle + 1)
        \<and> accountReserve ?v1 = accountReserve view"
  proof (cases m0)
    case False
    then show ?thesis using Cons.prems(1,2) by simp
  next
    case True
    then have ok: "blob0 \<noteq> []" "length blob0 \<le> unat (hk_HookDataMaxSize hook)"
      using Cons.prems(4) by (auto simp: x)
    from setHookState_write(3,4,5) [OF Cons.prems(1,2) ok res0 refl, where chdoc = chdoc and key = key0] True
    show ?thesis by auto
  qed
  then obtain sle' hook' where
    a': "peekAccount ?v1 (account hookCtx) = Some sle'"
    and h': "peekHook ?v1 (account hookCtx) = Some hook'"
    and mx: "hk_HookDataMaxSize hook' = hk_HookDataMaxSize hook"
    and bl: "ar_Balance sle' = ar_Balance sle"
    and oc: "ar_OwnerCount sle' = ar_OwnerCount sle \<or> ar_OwnerCount sle' = ar_OwnerCount sle + 1"
    and rs: "accountReserve ?v1 = accountReserve view"
    by blast
  have wf: "\<forall>(key, m, blob) \<in> set xs.
           m \<longrightarrow> blob \<noteq> [] \<and> length blob \<le> unat (hk_HookDataMaxSize hook')"
    using Cons.prems(4) mx by auto
  have res: "\<forall>n \<le> length xs.
           accountReserve ?v1 (unat (ar_OwnerCount sle' + of_nat n)) \<le> ar_Balance sle'"
  proof (intro allI impI)
    fix n assume n: "n \<le> length xs"
    from oc show "accountReserve ?v1 (unat (ar_OwnerCount sle' + of_nat n)) \<le> ar_Balance sle'"
    proof
      assume "ar_OwnerCount sle' = ar_OwnerCount sle"
      then show ?thesis
        using Cons.prems(5) [rule_format, of n] n by (simp add: rs bl)
    next
      assume e: "ar_OwnerCount sle' = ar_OwnerCount sle + 1"
      have "ar_OwnerCount sle + 1 + of_nat n = ar_OwnerCount sle + of_nat (Suc n)"
        by simp
      then show ?thesis
        using Cons.prems(5) [rule_format, of "Suc n"] n by (simp only: rs bl e) simp
    qed
  qed
  note IH = Cons.IH [OF a' h' d wf res]
  have first: "map_option hs_HookData (peekHookState
                     (commitChangesToLedger chdoc (hookCtx\<lparr>changedState := x # xs\<rparr>) view)
                     ?k0) = Some blob0" if m0
  proof -
    have ok: "blob0 \<noteq> []" "length blob0 \<le> unat (hk_HookDataMaxSize hook)"
      using Cons.prems(4) that by (auto simp: x)
    have "map_option hs_HookData (peekHookState ?v1 ?k0) = Some blob0"
      using setHookState_write(1) [OF Cons.prems(1,2) ok res0 refl, where chdoc = chdoc and key = key0] that
      by simp
    moreover have "sles (commitChangesToLedger chdoc (hookCtx\<lparr>changedState := xs\<rparr>) ?v1) ?k0
                   = sles ?v1 ?k0"
      using IH fresh by blast
    ultimately show ?thesis by (simp add: step peekHookState_def)
  qed
  have others: "sles ?v1 (K_hook_state (account hookCtx) key)
                  = sles view (K_hook_state (account hookCtx) key)"
    if "key \<noteq> key0 \<or> \<not> m0" for key
  proof (cases m0)
    case False
    then show ?thesis by simp
  next
    case True
    then have ok: "blob0 \<noteq> []" "length blob0 \<le> unat (hk_HookDataMaxSize hook)"
      using Cons.prems(4) by (auto simp: x)
    from True that have "key \<noteq> key0" by simp
    with setHookState_write(2) [OF Cons.prems(1,2) ok res0 refl, where chdoc = chdoc and key = key0] True
    show ?thesis by simp
  qed
  show ?case
  proof (intro conjI ballI allI impI)
    fix e assume e: "e \<in> set (x # xs)"
    show "case e of (key, m, blob) \<Rightarrow>
            m \<longrightarrow> map_option hs_HookData
                  (peekHookState
                     (commitChangesToLedger chdoc (hookCtx\<lparr>changedState := x # xs\<rparr>) view)
                     (K_hook_state (account hookCtx) key)) = Some blob"
    proof (cases "e = x")
      case True
      then show ?thesis using first by (auto simp: x)
    next
      case False
      with e have "e \<in> set xs" by simp
      with IH show ?thesis by (auto simp: step)
    qed
  next
    fix key assume nk: "\<forall>blob. (key, True, blob) \<notin> set (x # xs)"
    then have "key \<noteq> key0 \<or> \<not> m0" by (auto simp: x)
    from others [OF this] IH nk
    show "sles (commitChangesToLedger chdoc (hookCtx\<lparr>changedState := x # xs\<rparr>) view)
              (K_hook_state (account hookCtx) key)
            = sles view (K_hook_state (account hookCtx) key)"
      by (simp add: step)
  qed
qed

text \<open>
  C1, amended. For every hook invocation whose blob instantiates, whatever the guest
  does: the staged modifications reach the ledger if and only if the exit type is not
  ROLLBACK, that is on ACCEPT and on REJECT. On ROLLBACK the view is left as it was.
  On ACCEPT and on REJECT, where the buffer is as \<open>set_state\<close> builds it (distinct keys,
  every modified blob non-empty and within the hook's data limit) and the account's
  balance covers the reserve for as many more owned objects as the buffer has entries,
  the ledger afterwards holds every modified entry's blob at its key and every state key
  without a modified entry is as before. The transaction succeeds on ACCEPT and fails
  with \<open>terNO_AUTH\<close> on REJECT and on ROLLBACK.
\<close>

theorem hook_apply_commit_discipline:
  "(let hookCtx = guest view \<lparr>account = acc, changedState = [], exitType = ROLLBACK,
                              exitReason = [], exitCode = -1\<rparr>;
        r = hook_apply chdoc True guest view acc
    in fst r = (if exitType hookCtx = ACCEPT then tesSUCCESS else terNO_AUTH)
     \<and> (exitType hookCtx = ROLLBACK \<longrightarrow> snd r = view)
     \<and> (exitType hookCtx \<noteq> ROLLBACK
          \<and> account hookCtx = acc
          \<and> distinct (map fst (changedState hookCtx))
          \<and> (\<exists>sle hook.
                peekAccount view acc = Some sle \<and> peekHook view acc = Some hook
              \<and> (\<forall>(key, m, blob) \<in> set (changedState hookCtx).
                    m \<longrightarrow> blob \<noteq> [] \<and> length blob \<le> unat (hk_HookDataMaxSize hook))
              \<and> (\<forall>n \<le> length (changedState hookCtx).
                    accountReserve view (unat (ar_OwnerCount sle + of_nat n))
                      \<le> ar_Balance sle))
          \<longrightarrow> (\<forall>(key, m, blob) \<in> set (changedState hookCtx).
                 m \<longrightarrow> map_option hs_HookData
                       (peekHookState (snd r) (K_hook_state acc key)) = Some blob)
            \<and> (\<forall>key. (\<forall>blob. (key, True, blob) \<notin> set (changedState hookCtx)) \<longrightarrow>
                 sles (snd r) (K_hook_state acc key) = sles view (K_hook_state acc key))))"
proof -
  define hookCtx where "hookCtx = guest view \<lparr>account = acc, changedState = [],
                              exitType = ROLLBACK, exitReason = [], exitCode = -1\<rparr>"
  define r where "r = hook_apply chdoc True guest view acc"
  let ?H = "exitType hookCtx \<noteq> ROLLBACK
          \<and> account hookCtx = acc
          \<and> distinct (map fst (changedState hookCtx))
          \<and> (\<exists>sle hook.
                peekAccount view acc = Some sle \<and> peekHook view acc = Some hook
              \<and> (\<forall>(key, m, blob) \<in> set (changedState hookCtx).
                    m \<longrightarrow> blob \<noteq> [] \<and> length blob \<le> unat (hk_HookDataMaxSize hook))
              \<and> (\<forall>n \<le> length (changedState hookCtx).
                    accountReserve view (unat (ar_OwnerCount sle + of_nat n))
                      \<le> ar_Balance sle))"
  let ?C = "(\<forall>(key, m, blob) \<in> set (changedState hookCtx).
                 m \<longrightarrow> map_option hs_HookData
                       (peekHookState (snd r) (K_hook_state acc key)) = Some blob)
            \<and> (\<forall>key. (\<forall>blob. (key, True, blob) \<notin> set (changedState hookCtx)) \<longrightarrow>
                 sles (snd r) (K_hook_state acc key) = sles view (K_hook_state acc key))"
  have st: "fst r = (if exitType hookCtx = ACCEPT then tesSUCCESS else terNO_AUTH)"
    by (simp add: r_def hookCtx_def hook_apply_def Let_def)
  have rb: "exitType hookCtx = ROLLBACK \<longrightarrow> snd r = view"
    by (simp add: r_def hookCtx_def hook_apply_def Let_def)
  have cm: "snd r = commitChangesToLedger chdoc hookCtx view" if "exitType hookCtx \<noteq> ROLLBACK"
    using that by (simp add: r_def hookCtx_def hook_apply_def Let_def)
  have wr: "?H \<longrightarrow> ?C"
  proof (rule impI)
    assume h: ?H
    from h have ne: "exitType hookCtx \<noteq> ROLLBACK" by (rule conjunct1)
    from h have a: "account hookCtx = acc" by (rule conjunct2 [THEN conjunct1])
    from h have d: "distinct (map fst (changedState hookCtx))"
      by (rule conjunct2 [THEN conjunct2, THEN conjunct1])
    from h have "\<exists>sle hook.
                peekAccount view acc = Some sle \<and> peekHook view acc = Some hook
              \<and> (\<forall>(key, m, blob) \<in> set (changedState hookCtx).
                    m \<longrightarrow> blob \<noteq> [] \<and> length blob \<le> unat (hk_HookDataMaxSize hook))
              \<and> (\<forall>n \<le> length (changedState hookCtx).
                    accountReserve view (unat (ar_OwnerCount sle + of_nat n))
                      \<le> ar_Balance sle)"
      by (rule conjunct2 [THEN conjunct2, THEN conjunct2])
    then obtain sle hook where
      p1: "peekAccount view acc = Some sle"
      and p2: "peekHook view acc = Some hook"
      and wf: "\<forall>(key, m, blob) \<in> set (changedState hookCtx).
                  m \<longrightarrow> blob \<noteq> [] \<and> length blob \<le> unat (hk_HookDataMaxSize hook)"
      and rs: "\<forall>n \<le> length (changedState hookCtx).
                  accountReserve view (unat (ar_OwnerCount sle + of_nat n)) \<le> ar_Balance sle"
      by (elim exE conjE)
    have e: "commitChangesToLedger chdoc
               (hookCtx\<lparr>changedState := changedState hookCtx\<rparr>) view = snd r"
      using cm [OF ne] by simp
    note W = commit_writes [where hookCtx = hookCtx and chdoc = chdoc and view = view
        and xs = "changedState hookCtx" and sle = sle and hook = hook,
        unfolded a e, OF p1 p2 d wf rs]
    then show ?C .
  qed
  have "fst r = (if exitType hookCtx = ACCEPT then tesSUCCESS else terNO_AUTH)
        \<and> (exitType hookCtx = ROLLBACK \<longrightarrow> snd r = view) \<and> (?H \<longrightarrow> ?C)"
    using st rb wr by (intro conjI)
  then show ?thesis
    unfolding hookCtx_def r_def Let_def .
qed

text \<open>
  C1, witness: the three exits on the ledger \<open>view_hook\<close>, which has no state entry at
  key 7. An accepting and a rejecting guest that staged four bytes at key 7 both leave
  them in the ledger, the first with \<open>tesSUCCESS\<close> and the second with \<open>terNO_AUTH\<close>; a
  guest that returns without calling the host is rolled back and the view is unchanged.
\<close>

theorem hook_apply_commit_discipline_witness:
  "fst (hook_apply (ceil_count 5) True guest_set_accept view_hook 1) = tesSUCCESS
   \<and> map_option hs_HookData
        (peekHookState (snd (hook_apply (ceil_count 5) True guest_set_accept view_hook 1))
           (K_hook_state 1 7)) = Some [222, 173, 190, 239]
   \<and> fst (hook_apply (ceil_count 5) True guest_set_reject view_hook 1) = terNO_AUTH
   \<and> map_option hs_HookData
        (peekHookState (snd (hook_apply (ceil_count 5) True guest_set_reject view_hook 1))
           (K_hook_state 1 7)) = Some [222, 173, 190, 239]
   \<and> peekHookState view_hook (K_hook_state 1 7) = None
   \<and> hook_apply (ceil_count 5) True guest_idle view_hook 1 = (terNO_AUTH, view_hook)"
proof -
  have facts: "peekAccount view_hook (Suc 0)
                 = Some \<lparr>ar_Balance = 5000000, ar_OwnerCount = 1, ar_Flags = 0\<rparr>"
    "peekHook view_hook (Suc 0) = Some (hookA 0)"
    by (simp_all add: view_ops view_hook_def)
  have rs: "accountReserve view_hook (unat ((1 :: 32 word) + of_nat n)) \<le> 5000000"
    if "n \<le> Suc 0" for n
  proof -
    from that have "n = 0 \<or> n = 1" by auto
    then show ?thesis by (auto simp: view_hook_def)
  qed
  have H: "exitType c \<noteq> ROLLBACK
          \<and> account c = 1
          \<and> distinct (map fst (changedState c))
          \<and> (\<exists>sle hook.
                peekAccount view_hook 1 = Some sle \<and> peekHook view_hook 1 = Some hook
              \<and> (\<forall>(key, m, blob) \<in> set (changedState c).
                    m \<longrightarrow> blob \<noteq> [] \<and> length blob \<le> unat (hk_HookDataMaxSize hook))
              \<and> (\<forall>n \<le> length (changedState c).
                    accountReserve view_hook (unat (ar_OwnerCount sle + of_nat n))
                      \<le> ar_Balance sle))"
    if "exitType c \<noteq> ROLLBACK" "account c = 1"
      "changedState c = [(7, True, [222, 173, 190, 239])]" for c
    using that rs by (simp add: facts hookA_def)
  note A = hook_apply_commit_discipline [of guest_set_accept view_hook 1 "ceil_count 5",
      unfolded Let_def ctxA_def [symmetric] guest_set_accept_run]
  note R = hook_apply_commit_discipline [of guest_set_reject view_hook 1 "ceil_count 5",
      unfolded Let_def ctxA_def [symmetric] guest_set_reject_run]
  note I = hook_apply_commit_discipline [of guest_idle view_hook 1 "ceil_count 5",
      unfolded Let_def ctxA_def [symmetric]]
  have a1: "fst (hook_apply (ceil_count 5) True guest_set_accept view_hook 1) = tesSUCCESS"
    using A [THEN conjunct1] by simp
  have a2: "map_option hs_HookData
        (peekHookState (snd (hook_apply (ceil_count 5) True guest_set_accept view_hook 1))
           (K_hook_state 1 7)) = Some [222, 173, 190, 239]"
    using A [THEN conjunct2, THEN conjunct2, THEN mp, OF H, THEN conjunct1]
    by (simp add: ctxA_def)
  have r1: "fst (hook_apply (ceil_count 5) True guest_set_reject view_hook 1) = terNO_AUTH"
    using R [THEN conjunct1] by simp
  have r2: "map_option hs_HookData
        (peekHookState (snd (hook_apply (ceil_count 5) True guest_set_reject view_hook 1))
           (K_hook_state 1 7)) = Some [222, 173, 190, 239]"
    using R [THEN conjunct2, THEN conjunct2, THEN mp, OF H, THEN conjunct1]
    by (simp add: ctxA_def)
  have n: "peekHookState view_hook (K_hook_state 1 7) = None"
    by (simp add: peekHookState_def view_hook_def)
  have i: "hook_apply (ceil_count 5) True guest_idle view_hook 1 = (terNO_AUTH, view_hook)"
    using I [THEN conjunct1] I [THEN conjunct2, THEN conjunct1]
    by (simp add: guest_idle_def ctxA_def prod_eq_iff)
  from a1 a2 r1 r2 n i show ?thesis by (intro conjI)
qed

subsection \<open>C3: the state count after a deletion\<close>

text \<open>
  C3 holds of the insertion path and fails on the deletion path of \<open>setHookState\<close>. The
  hook of \<open>view_three_states\<close> records three state entries and owns three. Deleting the
  entry at key 2 (empty data) succeeds and leaves two entries, but the count written
  back is \<open>COMPUTE_HOOK_DATA_OWNER_COUNT\<close> of the decremented count: with the spec's
  example formula \<open>ceil(n / 5)\<close> the stored \<open>hookStateCount\<close> is 1, not 2.
\<close>

theorem setHookState_delete_stores_owner_units:
  "(case setHookState (ceil_count 5) ctxA view_three_states (K_hook_state 1 2) [] of
      (ter, view') \<Rightarrow>
        ter = tesSUCCESS
        \<and> map_option hk_HookStateCount (peekHook view_three_states 1) = Some 3
        \<and> peekHookState view' (K_hook_state 1 2) = None
        \<and> peekHookState view' (K_hook_state 1 1) \<noteq> None
        \<and> peekHookState view' (K_hook_state 1 3) \<noteq> None
        \<and> map_option hk_HookStateCount (peekHook view' 1) = Some 1)"
  by (simp add: setHookState_def view_ops ceil_count_def view_three_states_def ctxA_def
      hookA_def)

text \<open>
  The same for every formula \<open>chdoc\<close>: a successful deletion stores \<open>chdoc\<close> of the
  decremented count, which is the decremented count only where \<open>chdoc\<close> is the identity.
\<close>

lemma setHookState_delete_count:
  assumes "peekAccount view (account hookCtx) = Some sle"
    and "peekHook view (account hookCtx) = Some hook"
    and "peekHookState view k = Some old"
    and "dirRemove view (account hookCtx) (hs_OwnerNode old) k \<noteq> None"
    and "k \<noteq> K_hook (account hookCtx)"
  shows "map_option hk_HookStateCount
           (peekHook (snd (setHookState chdoc hookCtx view k [])) (account hookCtx))
         = Some (chdoc (if hk_HookStateCount hook > 0 then hk_HookStateCount hook - 1
                        else hk_HookStateCount hook))"
  using assms
  by (auto simp: setHookState_def view_ops Let_def split: option.splits SLE.splits if_splits)

subsection \<open>C4: \<open>set_state\<close> with an empty blob\<close>

text \<open>
  C4, as stated, fails. The claim says a \<open>set_state\<close> call with \<open>dataLen == 0\<close> stages
  a deletion and, when the key has no entry, is a successful no-op. On the ledger
  \<open>view_hook\<close>, which has no entry at key 7, the in-bounds call \<open>set_state(0, 32, 0)\<close>
  returns the error code \<open>TOO_SMALL\<close> and leaves the change buffer as it was.
\<close>

theorem set_state_empty_counterexample:
  "peekHookState view_hook (K_hook_state 1 7) = None
   \<and> set_state 128 view_hook mem64k ctxA 0 32 0 = (Error TOO_SMALL, ctxA)"
  by (simp add: set_state_def length_mem64k peekHookState_def view_hook_def)

text \<open>
  C4, amended. Every \<open>set_state\<close> call with \<open>dataLen == 0\<close> returns an error code,
  \<open>OUT_OF_BOUNDS\<close> when the bounds check fails and \<open>TOO_SMALL\<close> otherwise, and stages
  nothing: the host API cannot stage a deletion.
\<close>

theorem set_state_empty_rejected:
  "set_state maxHookDataSize view memory hookCtx key_ptr data_ptr_in 0 =
     (if unat (key_ptr + 32) > length memory
         \<or> unat (data_ptr_in + maxHookDataSize) > length memory
      then Error OUT_OF_BOUNDS else Error TOO_SMALL, hookCtx)"
  by (simp add: set_state_def)

text \<open>
  C4, witness: an in-bounds call and a call whose key lies past the end of memory.
\<close>

theorem set_state_empty_rejected_witness:
  "set_state 128 view_hook mem64k ctxA 0 32 0 = (Error TOO_SMALL, ctxA)
   \<and> set_state 128 view_hook mem64k ctxA 65520 32 0 = (Error OUT_OF_BOUNDS, ctxA)"
  using set_state_empty_rejected [of 128 view_hook mem64k ctxA 0 32]
    set_state_empty_rejected [of 128 view_hook mem64k ctxA 65520 32]
  by (simp add: length_mem64k)

subsection \<open>C10: the bounds check of \<open>set_state\<close>\<close>

text \<open>
  C10 fails where the 32-bit sum wraps. With one page of memory and
  \<open>key_ptr = 0xFFFFFFE0\<close>, \<open>key_ptr + 32\<close> is 0 in \<open>uint32_t\<close>, the bounds check passes
  although the key lies far outside linear memory, and the call goes on to read the 32
  key bytes there instead of returning \<open>OUT_OF_BOUNDS\<close>.
\<close>

theorem set_state_key_ptr_wraps:
  "unat (0xFFFFFFE0 :: 32 word) + 32 > length mem64k
   \<and> set_state 128 view_hook mem64k ctxA 0xFFFFFFE0 0 1 = (OutOfBoundsRead, ctxA)"
  by (simp add: set_state_def length_mem64k peekHook_def view_hook_def ctxA_def hookA_def)

text \<open>
  Where neither sum wraps and the hook's data limit is at most
  \<open>hook::maxHookDataSize()\<close>, no call reads outside linear memory.
\<close>

lemma set_state_no_wrap_in_bounds:
  assumes "unat key_ptr + 32 < 2 ^ 32"
    and "unat data_ptr_in + unat maxHookDataSize < 2 ^ 32"
    and "\<forall>h. peekHook view (account hookCtx) = Some h
             \<longrightarrow> hk_HookDataMaxSize h \<le> maxHookDataSize"
  shows "fst (set_state maxHookDataSize view memory hookCtx key_ptr data_ptr_in in_len)
           \<noteq> OutOfBoundsRead"
proof -
  have k: "unat (key_ptr + 32) = unat key_ptr + 32"
    using assms(1) by (simp add: unat_word_ariths)
  have d: "unat (data_ptr_in + maxHookDataSize) = unat data_ptr_in + unat maxHookDataSize"
    using assms(2) by (simp add: unat_word_ariths)
  show ?thesis
    using assms(3)
    by (auto simp: set_state_def k d Let_def word_le_nat_alt word_less_nat_alt
        split: option.splits)
qed

section \<open>SetHook: properties\<close>

subsection \<open>C5: bulk state teardown\<close>

lemma destroyLoop_accounts:
  "destroyLoop view acc es = (ter, view') \<Longrightarrow> peekAccount view' b = peekAccount view b"
proof (induction es arbitrary: view)
  case Nil
  then show ?case by simp
next
  case (Cons e es)
  show ?case
  proof (cases "sles view e")
    case None
    with Cons.prems show ?thesis by simp
  next
    case (Some item)
    show ?thesis
    proof (cases item)
      case (HookStateSLE st)
      show ?thesis
      proof (cases "dirRemove view acc (hs_OwnerNode st) e")
        case None
        with Cons.prems Some HookStateSLE show ?thesis by simp
      next
        case (Some v1)
        with Cons.prems \<open>sles view e = Some item\<close> HookStateSLE
        have run: "destroyLoop (erase v1 e) acc es = (ter, view')" by simp
        have "sles v1 = sles view"
          using Some by (auto simp: dirRemove_def split: if_splits)
        then have "peekAccount (erase v1 e) b = peekAccount view b"
          using \<open>sles view e = Some item\<close> HookStateSLE
          by (auto simp: peekAccount_def erase_def)
        with Cons.IH [OF run] show ?thesis by simp
      qed
    qed (use Cons Some in auto)
  qed
qed

text \<open>
  A SetHook with empty code on an account without a hook leaves every account entry,
  and so every owner count, as it was.
\<close>

lemma setHook_teardown_accounts:
  assumes "sh_CreateCode tx = []" and "peekHook view (sh_Account tx) = None"
  shows "peekAccount (snd (setHook blobMax prior view tx)) b = peekAccount view b"
proof -
  obtain ter v1 where d: "destroyEntireHookState view (sh_Account tx) = (ter, v1)"
    by (cases "destroyEntireHookState view (sh_Account tx)")
  then have "peekAccount v1 b = peekAccount view b"
    by (auto simp: destroyEntireHookState_def split: if_splits dest: destroyLoop_accounts)
  with assms d show ?thesis
    by (simp add: setHook_def Let_def)
qed

text \<open>
  C5 holds except for the owner count. On \<open>view_orphan_states\<close> account 1 has no hook,
  owns three HookState entries and carries the one owner-count unit they consumed. The
  SetHook with empty code succeeds, erases the three entries, empties the directory and
  creates no Hook entry, but the owner count is 1 before and 1 after:
  \<open>destroyEntireHookState\<close> never adjusts it.
\<close>

theorem setHook_teardown_keeps_owner_count:
  "(case setHook 128 5000000 view_orphan_states
           \<lparr>sh_Account = 1, sh_CreateCode = [], sh_HookOn = 0\<rparr> of
      (ter, view') \<Rightarrow>
        ter = tesSUCCESS
        \<and> sles view' (K_hook_state 1 1) = None
        \<and> sles view' (K_hook_state 1 2) = None
        \<and> sles view' (K_hook_state 1 3) = None
        \<and> ownerDirs view' 1 = []
        \<and> peekHook view' 1 = None
        \<and> map_option ar_OwnerCount (peekAccount view_orphan_states 1) = Some 1
        \<and> map_option ar_OwnerCount (peekAccount view' 1) = Some 1)"
  by (simp add: setHook_def destroyEntireHookState_def view_ops view_orphan_states_def)

section \<open>Payment channels: properties\<close>

subsection \<open>C2: PayChanCreate preclaim\<close>

text \<open>
  C2 fails on the code. In end-to-end scenario 1 the owner holds 1000000 drops, the
  reserve for one more object is 200000 and the XRP amount is 100000, so the create is
  funded and the destination is valid. The funds test is the condition of an
  \<open>if \<dots> else\<close> whose \<open>else\<close> holds the issued-token checks: a funded XRP create
  falls into it and ends in \<open>tecINTERNAL\<close> when the token amendment is not enabled,
  instead of reaching the destination checks.
\<close>

theorem PayChanCreate_preclaim_funded_xrp:
  "map_option ar_Balance (peekAccount view_create 1) = Some 1000000
   \<and> accountReserve view_create 1 + amt_value (cr_Amount create_tx) \<le> 1000000
   \<and> isXRP (cr_Amount create_tx)
   \<and> map_option ar_Flags (peekAccount view_create 2) = Some 0
   \<and> PayChanCreate_preclaim (collab (\<lambda>_. tesSUCCESS)) view_create create_tx = tecINTERNAL"
  by (simp add: PayChanCreate_preclaim_def peekAccount_def view_create_def create_tx_def)

subsection \<open>C6: funding an elapsed channel\<close>

lemma view_chan_simps:
  "peekPayChan (view_chan p fs) 9 = Some p"
  "enabled (view_chan p fs) = fs"
  "parentCloseTime (view_chan p fs) = 700000000"
  by (simp_all add: peekPayChan_def view_chan_def)

lemma closeChannel_iou_fixture:
  "fst (closeChannel (collab no_spare_tokens)
          (view_chan chan_iou {featurePaychanAndEscrowForTokens}) 9 chan_iou) = tesSUCCESS"
  by (simp add: closeChannel_def view_ops view_chan_def chan_iou_def chan9_def collab_def
      no_spare_tokens_def Let_def)

text \<open>
  C6 fails on the code. The channel below is an issued-token channel whose CancelAfter
  has elapsed, and closing it would succeed. Its owner sends a PayChanFund of 10 more
  tokens but has none to lock: \<open>doApply\<close> performs the dry run of the lock before it
  looks at the expiration, returns the dry run's failure, and leaves the elapsed channel
  open. The header of \<open>PayChan.cpp\<close> says that any transaction that touches a channel
  after its expiration or CancelAfter time closes it, and \<open>PayChanClaim::doApply\<close> does
  the sweep before anything else.
\<close>

theorem PayChanFund_elapsed_dry_run_first:
  "peekPayChan (view_chan chan_iou {featurePaychanAndEscrowForTokens}) 9 = Some chan_iou
   \<and> pc_CancelAfter chan_iou = Some 600000000
   \<and> (600000000 :: 32 word) \<le> parentCloseTime (view_chan chan_iou {featurePaychanAndEscrowForTokens})
   \<and> fst (closeChannel (collab no_spare_tokens)
          (view_chan chan_iou {featurePaychanAndEscrowForTokens}) 9 chan_iou) = tesSUCCESS
   \<and> PayChanFund_doApply (collab no_spare_tokens)
        (view_chan chan_iou {featurePaychanAndEscrowForTokens}) fund_iou
      = (tecUNFUNDED_PAYMENT, view_chan chan_iou {featurePaychanAndEscrowForTokens})"
proof -
  have p: "peekPayChan (view_chan chan_iou {featurePaychanAndEscrowForTokens}) 9 = Some chan_iou"
    by (simp add: peekPayChan_def view_chan_def)
  have e: "enabled (view_chan chan_iou {featurePaychanAndEscrowForTokens}) = {featurePaychanAndEscrowForTokens}"
    by (simp add: view_chan_def)
  have t: "parentCloseTime (view_chan chan_iou {featurePaychanAndEscrowForTokens}) = 700000000"
    by (simp add: view_chan_def)
  have f: "PayChanFund_doApply (collab no_spare_tokens)
        (view_chan chan_iou {featurePaychanAndEscrowForTokens}) fund_iou
      = (tecUNFUNDED_PAYMENT, view_chan chan_iou {featurePaychanAndEscrowForTokens})"
    by (simp add: PayChanFund_doApply_def p e fund_iou_def collab_def no_spare_tokens_def Let_def)
  show ?thesis
    using p t f closeChannel_iou_fixture by (simp add: chan_iou_def)
qed

lemma isXRP_amt_with [simp]: "isXRP (amt_with a n) = isXRP a"
  by (cases a) simp_all

lemma amt_value_amt_with [simp]: "amt_value (amt_with a n) = n"
  by (cases a) simp_all

lemma dirRemove_sles: "dirRemove v a page k = Some v1 \<Longrightarrow> sles v1 = sles v"
  by (auto simp: dirRemove_def split: if_splits)

lemma closeChannel_xrp:
  assumes x: "isXRP (pc_Amount slep)"
    and c: "closeChannel ext view key slep = (tesSUCCESS, view')"
  shows "sles view' (K_payChan key) = None
       \<and> peekAccount view' (pc_Account slep)
           = map_option
               (\<lambda>r. r\<lparr>ar_Balance := ar_Balance r
                          + (amt_value (pc_Amount slep) - amt_value (pc_Balance slep)),
                        ar_OwnerCount := ar_OwnerCount r - 1\<rparr>)
               (peekAccount view (pc_Account slep))
       \<and> (\<forall>a. a \<noteq> pc_Account slep \<longrightarrow> sles view' (K_account a) = sles view (K_account a))"
proof -
  from c x obtain v1 v2 sle where
    r1: "dirRemove view (pc_Account slep) (pc_OwnerNode slep) (K_payChan key) = Some v1"
    and s2: "sles v2 = sles v1"
    and acc: "peekAccount v2 (pc_Account slep) = Some sle"
    and v': "view' = erase (adjustOwnerCount
               (put v2 (K_account (pc_Account slep))
                  (AccountRootSLE (sle\<lparr>ar_Balance := ar_Balance sle
                     + (amt_value (pc_Amount slep) - amt_value (pc_Balance slep))\<rparr>)))
               (pc_Account slep) (-1)) (K_payChan key)"
    by (auto simp: closeChannel_def Let_def split: if_splits option.splits prod.splits
        dest: dirRemove_sles)
  have s: "sles v2 = sles view" using s2 dirRemove_sles [OF r1] by simp
  then have acc0: "peekAccount view (pc_Account slep) = Some sle"
    using acc by (simp add: peekAccount_def)
  show ?thesis
    unfolding v' using s acc0
    by (auto simp: peekAccount_def erase_def put_def adjustOwnerCount_def
        split: option.splits SLE.splits)
qed

text \<open>
  Where the dry run does not stand in the way (the Amount is XRP, or the token amendment
  is off, or the dry run passes), a fund on an elapsed channel does what \<open>closeChannel\<close>
  does and nothing else, whichever account sent it: nothing is funded and the Amount is
  deducted from no balance. On an XRP channel, when the close succeeds the channel entry
  is erased, the owner gets amount - balance back and gives up one owner count, and no
  other account entry changes.
\<close>

lemma PayChanFund_elapsed_closes:
  assumes chan: "peekPayChan view (fu_Channel tx) = Some slep"
    and dry: "isXRP (fu_Amount tx) \<or> featurePaychanAndEscrowForTokens \<notin> enabled view
              \<or> fst (trustAdjustLockedBalance ext view
                        (K_line (pc_Account slep) (getIssuer (fu_Amount tx))
                           (getCurrency (fu_Amount tx)))
                        (fu_Amount tx) 1 DryRun) = tesSUCCESS"
    and elapsed: "(\<exists>c. pc_CancelAfter slep = Some c \<and> c \<le> parentCloseTime view)
                  \<or> (\<exists>e. pc_Expiration slep = Some e \<and> e \<le> parentCloseTime view)"
  shows "PayChanFund_doApply ext view tx = closeChannel ext view (fu_Channel tx) slep
       \<and> (isXRP (pc_Amount slep) \<and> fst (PayChanFund_doApply ext view tx) = tesSUCCESS \<longrightarrow>
            sles (snd (PayChanFund_doApply ext view tx)) (K_payChan (fu_Channel tx)) = None
          \<and> peekAccount (snd (PayChanFund_doApply ext view tx)) (pc_Account slep)
             = map_option
                 (\<lambda>r. r\<lparr>ar_Balance := ar_Balance r
                            + (amt_value (pc_Amount slep) - amt_value (pc_Balance slep)),
                          ar_OwnerCount := ar_OwnerCount r - 1\<rparr>)
                 (peekAccount view (pc_Account slep))
          \<and> (\<forall>a. a \<noteq> pc_Account slep \<longrightarrow>
                 sles (snd (PayChanFund_doApply ext view tx)) (K_account a)
                   = sles view (K_account a)))"
proof -
  have eq: "PayChanFund_doApply ext view tx = closeChannel ext view (fu_Channel tx) slep"
    using dry elapsed by (auto simp: PayChanFund_doApply_def chan Let_def)
  have "sles (snd (PayChanFund_doApply ext view tx)) (K_payChan (fu_Channel tx)) = None
          \<and> peekAccount (snd (PayChanFund_doApply ext view tx)) (pc_Account slep)
             = map_option
                 (\<lambda>r. r\<lparr>ar_Balance := ar_Balance r
                            + (amt_value (pc_Amount slep) - amt_value (pc_Balance slep)),
                          ar_OwnerCount := ar_OwnerCount r - 1\<rparr>)
                 (peekAccount view (pc_Account slep))
          \<and> (\<forall>a. a \<noteq> pc_Account slep \<longrightarrow>
                 sles (snd (PayChanFund_doApply ext view tx)) (K_account a)
                   = sles view (K_account a))"
    if a: "isXRP (pc_Amount slep) \<and> fst (PayChanFund_doApply ext view tx) = tesSUCCESS"
  proof -
    have "closeChannel ext view (fu_Channel tx) slep
            = (tesSUCCESS, snd (PayChanFund_doApply ext view tx))"
      using a eq by (metis prod.collapse)
    from closeChannel_xrp [OF _ this] a show ?thesis by simp
  qed
  with eq show ?thesis by blast
qed

text \<open>
  An instance: the bystander account 3 funds the XRP channel after its CancelAfter. The
  channel is closed, the owner gets the unclaimed 60000 drops back, and account 3 keeps
  its entry.
\<close>

lemma PayChanFund_elapsed_closes_instance:
  "PayChanFund_doApply (collab (\<lambda>_. tesSUCCESS)) (view_chan chan_elapsed {}) (fund_xrp 3 None)
     = closeChannel (collab (\<lambda>_. tesSUCCESS)) (view_chan chan_elapsed {}) 9 chan_elapsed
   \<and> fst (PayChanFund_doApply (collab (\<lambda>_. tesSUCCESS)) (view_chan chan_elapsed {})
            (fund_xrp 3 None)) = tesSUCCESS
   \<and> sles (snd (PayChanFund_doApply (collab (\<lambda>_. tesSUCCESS)) (view_chan chan_elapsed {})
            (fund_xrp 3 None))) (K_payChan 9) = None
   \<and> map_option ar_Balance
        (peekAccount (snd (PayChanFund_doApply (collab (\<lambda>_. tesSUCCESS))
            (view_chan chan_elapsed {}) (fund_xrp 3 None))) 1) = Some 960000
   \<and> sles (snd (PayChanFund_doApply (collab (\<lambda>_. tesSUCCESS)) (view_chan chan_elapsed {})
            (fund_xrp 3 None))) (K_account 3)
      = sles (view_chan chan_elapsed {}) (K_account 3)"
proof -
  have ok: "fst (closeChannel (collab (\<lambda>_. tesSUCCESS)) (view_chan chan_elapsed {}) 9
                   chan_elapsed) = tesSUCCESS"
    by (simp add: closeChannel_def view_ops view_chan_def chan_elapsed_def chan9_def Let_def)
  have acc: "peekAccount (view_chan chan_elapsed {}) 1
               = Some \<lparr>ar_Balance = 900000, ar_OwnerCount = 1, ar_Flags = 0\<rparr>"
    by (simp add: peekAccount_def view_chan_def)
  have th: "peekPayChan (view_chan chan_elapsed {}) (fu_Channel (fund_xrp 3 None))
              = Some chan_elapsed"
    by (simp add: view_chan_simps fund_xrp_def)
  have el: "(\<exists>c. pc_CancelAfter chan_elapsed = Some c
                 \<and> c \<le> parentCloseTime (view_chan chan_elapsed {}))
            \<or> (\<exists>e. pc_Expiration chan_elapsed = Some e
                 \<and> e \<le> parentCloseTime (view_chan chan_elapsed {}))"
    by (simp add: view_chan_simps chan_elapsed_def)
  have x: "isXRP (fu_Amount (fund_xrp 3 None))" by (simp add: fund_xrp_def)
  have ch: "fu_Channel (fund_xrp 3 None) = 9" by (simp add: fund_xrp_def)
  have src: "pc_Account chan_elapsed = 1" "isXRP (pc_Amount chan_elapsed)"
    "amt_value (pc_Amount chan_elapsed) - amt_value (pc_Balance chan_elapsed) = 60000"
    by (simp_all add: chan_elapsed_def chan9_def)
  note T = PayChanFund_elapsed_closes [of "view_chan chan_elapsed {}" "fund_xrp 3 None"
      chan_elapsed "collab (\<lambda>_. tesSUCCESS)", OF th disjI1 [OF x] el, unfolded ch src]
  from T have eq: "PayChanFund_doApply (collab (\<lambda>_. tesSUCCESS)) (view_chan chan_elapsed {})
      (fund_xrp 3 None)
     = closeChannel (collab (\<lambda>_. tesSUCCESS)) (view_chan chan_elapsed {}) 9 chan_elapsed"
    by (rule conjunct1)
  with ok have s: "fst (PayChanFund_doApply (collab (\<lambda>_. tesSUCCESS))
      (view_chan chan_elapsed {}) (fund_xrp 3 None)) = tesSUCCESS"
    by simp
  from T s src(2) have rest:
    "sles (snd (PayChanFund_doApply (collab (\<lambda>_. tesSUCCESS)) (view_chan chan_elapsed {})
            (fund_xrp 3 None))) (K_payChan 9) = None
     \<and> peekAccount (snd (PayChanFund_doApply (collab (\<lambda>_. tesSUCCESS))
            (view_chan chan_elapsed {}) (fund_xrp 3 None))) 1
        = map_option (\<lambda>r. r\<lparr>ar_Balance := ar_Balance r + 60000,
                              ar_OwnerCount := ar_OwnerCount r - 1\<rparr>)
            (peekAccount (view_chan chan_elapsed {}) 1)
     \<and> (\<forall>a. a \<noteq> 1 \<longrightarrow>
           sles (snd (PayChanFund_doApply (collab (\<lambda>_. tesSUCCESS))
                  (view_chan chan_elapsed {}) (fund_xrp 3 None))) (K_account a)
             = sles (view_chan chan_elapsed {}) (K_account a))"
    by blast
  then have third: "sles (snd (PayChanFund_doApply (collab (\<lambda>_. tesSUCCESS))
                  (view_chan chan_elapsed {}) (fund_xrp 3 None))) (K_account 3)
             = sles (view_chan chan_elapsed {}) (K_account 3)"
    by simp
  from rest acc have bal: "map_option ar_Balance
        (peekAccount (snd (PayChanFund_doApply (collab (\<lambda>_. tesSUCCESS))
            (view_chan chan_elapsed {}) (fund_xrp 3 None))) 1) = Some 960000"
    by simp
  from eq s rest bal third show ?thesis by blast
qed

subsection \<open>C7: the balance a claim requests\<close>

text \<open>
  C7, as stated, fails. The channel below is open, holds 100000 drops and has paid
  40000. Account 3, neither its owner nor its destination, sends a claim with Balance
  150000, more than the channel's amount: the transaction ends in \<open>tecNO_PERMISSION\<close>,
  not \<open>tecUNFUNDED_PAYMENT\<close>, because the caller and signature checks come before the
  range check.
\<close>

theorem PayChanClaim_third_party_counterexample:
  "peekPayChan (view_chan chan9 {}) 9 = Some chan9
   \<and> pc_CancelAfter chan9 = None \<and> pc_Expiration chan9 = None
   \<and> amt_value (pc_Amount chan9) < 150000
   \<and> PayChanClaim_doApply (collab (\<lambda>_. tesSUCCESS)) (view_chan chan9 {})
        (claim_tx 3 150000 None) = (tecNO_PERMISSION, view_chan chan9 {})"
  by (simp add: PayChanClaim_doApply_def view_chan_simps claim_tx_def chan9_def Let_def)

text \<open>
  C7, amended. For every PayChanClaim carrying a Balance field (in the channel's
  currency) against an open channel, sent by the channel's owner or by its destination,
  where a destination's claim carries a signature and a signature's public key is the
  channel's: if the requested balance is less than or equal to the channel's current
  balance, or greater than the channel's amount, the transaction returns
  \<open>tecUNFUNDED_PAYMENT\<close> and changes nothing; a claim succeeds only when
  chanBalance < balance \<le> chanAmount.
\<close>

theorem PayChanClaim_balance_range:
  assumes chan: "peekPayChan view (cl_Channel tx) = Some slep"
    and open1: "\<forall>c. pc_CancelAfter slep = Some c \<longrightarrow> parentCloseTime view < c"
    and open2: "\<forall>e. pc_Expiration slep = Some e \<longrightarrow> parentCloseTime view < e"
    and caller: "cl_Account tx = pc_Account slep \<or> cl_Account tx = pc_Destination slep"
    and bal: "cl_Balance tx = Some reqBalance"
    and sig: "cl_Account tx = pc_Destination slep \<longrightarrow> cl_Signature tx \<noteq> None"
    and pk: "cl_Signature tx \<noteq> None \<longrightarrow> cl_PublicKey tx = Some (pc_PublicKey slep)"
    and cmp: "comparable reqBalance (pc_Amount slep) \<and> comparable reqBalance (pc_Balance slep)"
  shows "(amt_value reqBalance \<le> amt_value (pc_Balance slep)
          \<or> amt_value (pc_Amount slep) < amt_value reqBalance
            \<longrightarrow> PayChanClaim_doApply ext view tx = (tecUNFUNDED_PAYMENT, view))
       \<and> (fst (PayChanClaim_doApply ext view tx) = tesSUCCESS
            \<longrightarrow> amt_value (pc_Balance slep) < amt_value reqBalance
              \<and> amt_value reqBalance \<le> amt_value (pc_Amount slep))"
proof -
  have notel: "\<not> ((case pc_CancelAfter slep of Some c \<Rightarrow> parentCloseTime view \<ge> c | None \<Rightarrow> False)
         \<or> (case pc_Expiration slep of Some e \<Rightarrow> parentCloseTime view \<ge> e | None \<Rightarrow> False))"
    using open1 open2 by (auto split: option.splits)
  have perm: "\<not> (cl_Account tx \<noteq> pc_Account slep \<and> cl_Account tx \<noteq> pc_Destination slep)"
    using caller by blast
  have out: "claimBalance ext view tx slep reqBalance = Inl (tecUNFUNDED_PAYMENT, view)"
    if "amt_value reqBalance \<le> amt_value (pc_Balance slep)
        \<or> amt_value (pc_Amount slep) < amt_value reqBalance"
    using that sig pk cmp by (auto simp: claimBalance_def Let_def)
  have fail: "PayChanClaim_doApply ext view tx = (tecUNFUNDED_PAYMENT, view)"
    if "amt_value reqBalance \<le> amt_value (pc_Balance slep)
        \<or> amt_value (pc_Amount slep) < amt_value reqBalance"
    using notel perm by (simp add: PayChanClaim_doApply_def chan bal Let_def out [OF that])
  then show ?thesis
    by (metis TER.distinct(5) fst_conv not_le_imp_less)
qed

text \<open>
  C7, witness: the destination, with a signature under the channel's key, over-claims
  150000 of 100000 drops; the owner re-claims the 40000 already paid.
\<close>

theorem PayChanClaim_balance_range_witness:
  "PayChanClaim_doApply (collab (\<lambda>_. tesSUCCESS)) (view_chan chan9 {})
      (claim_tx 2 150000 (Some [1])) = (tecUNFUNDED_PAYMENT, view_chan chan9 {})
   \<and> PayChanClaim_doApply (collab (\<lambda>_. tesSUCCESS)) (view_chan chan9 {})
      (claim_tx 1 40000 None) = (tecUNFUNDED_PAYMENT, view_chan chan9 {})"
proof -
  have c: "pc_CancelAfter chan9 = None" "pc_Expiration chan9 = None" "pc_Account chan9 = 1"
    "pc_Destination chan9 = 2" "pc_PublicKey chan9 = [2, 171]"
    "pc_Amount chan9 = XRPAmount 100000" "pc_Balance chan9 = XRPAmount 40000"
    by (simp_all add: chan9_def)
  have a: "PayChanClaim_doApply (collab (\<lambda>_. tesSUCCESS)) (view_chan chan9 {})
      (claim_tx 2 150000 (Some [1])) = (tecUNFUNDED_PAYMENT, view_chan chan9 {})"
    using PayChanClaim_balance_range [of "view_chan chan9 {}" "claim_tx 2 150000 (Some [1])"
        chan9 "XRPAmount 150000" "collab (\<lambda>_. tesSUCCESS)"]
    by (simp add: claim_tx_def view_chan_simps c)
  have b: "PayChanClaim_doApply (collab (\<lambda>_. tesSUCCESS)) (view_chan chan9 {})
      (claim_tx 1 40000 None) = (tecUNFUNDED_PAYMENT, view_chan chan9 {})"
    using PayChanClaim_balance_range [of "view_chan chan9 {}" "claim_tx 1 40000 None"
        chan9 "XRPAmount 40000" "collab (\<lambda>_. tesSUCCESS)"]
    by (simp add: claim_tx_def view_chan_simps c)
  from a b show ?thesis by simp
qed

subsection \<open>C8: the floor of a fund's expiration\<close>

text \<open>
  C8, as stated, fails. Account 3 does not own the open channel below and funds it with
  Expiration 5, far below the floor parentCloseTime + settleDelay: the fund ends in
  \<open>tecNO_PERMISSION\<close>, not \<open>temBAD_EXPIRATION\<close>, because the elapsed-channel and owner
  checks come before the expiration is looked at.
\<close>

theorem PayChanFund_non_owner_counterexample:
  "peekPayChan (view_chan chan9 {}) 9 = Some chan9
   \<and> pc_CancelAfter chan9 = None \<and> pc_Expiration chan9 = None
   \<and> (5 :: 32 word) < parentCloseTime (view_chan chan9 {}) + pc_SettleDelay chan9
   \<and> PayChanFund_doApply (collab (\<lambda>_. tesSUCCESS)) (view_chan chan9 {}) (fund_xrp 3 (Some 5))
       = (tecNO_PERMISSION, view_chan chan9 {})"
  by (simp add: PayChanFund_doApply_def view_chan_simps fund_xrp_def chan9_def Let_def)

lemma fundChannel_not_BAD_EXPIRATION:
  "fst (fundChannel ext v1 tx slep1) \<noteq> temBAD_EXPIRATION"
  by (auto simp: fundChannel_def Let_def split: option.splits prod.splits if_splits)


lemma fundChannel_keeps_expiration:
  assumes "peekPayChan v1 (fu_Channel tx) = Some slep1"
    and "isXRP (fu_Amount tx) \<or> fst (fundChannel ext v1 tx slep1) = tesSUCCESS"
  shows "map_option pc_Expiration
           (peekPayChan (snd (fundChannel ext v1 tx slep1)) (fu_Channel tx))
         = Some (pc_Expiration slep1)"
proof (cases "isXRP (fu_Amount tx)")
  case True
  with assms(1) show ?thesis
    by (auto simp: fundChannel_def Let_def peekPayChan_def put_def
        split: option.splits)
next
  case False
  with assms have ok: "fst (fundChannel ext v1 tx slep1) = tesSUCCESS" by simp
  with False show ?thesis
    by (auto simp: fundChannel_def Let_def peekPayChan_def put_def
        split: option.splits prod.splits if_splits)
qed

text \<open>
  The expiration block as the code computes it, in unsigned 32-bit arithmetic: the
  floor is the word sum of parentCloseTime and settleDelay, or the channel's current
  expiration where that is earlier.
\<close>

lemma PayChanFund_expiration_floor_word:
  assumes chan: "peekPayChan view (fu_Channel tx) = Some slep"
    and dry: "isXRP (fu_Amount tx) \<or> featurePaychanAndEscrowForTokens \<notin> enabled view
              \<or> fst (trustAdjustLockedBalance ext view
                        (K_line (pc_Account slep) (getIssuer (fu_Amount tx))
                           (getCurrency (fu_Amount tx)))
                        (fu_Amount tx) 1 DryRun) = tesSUCCESS"
    and open1: "\<forall>c. pc_CancelAfter slep = Some c \<longrightarrow> parentCloseTime view < c"
    and open2: "\<forall>x. pc_Expiration slep = Some x \<longrightarrow> parentCloseTime view < x"
    and owner: "fu_Account tx = pc_Account slep"
    and ext: "fu_Expiration tx = Some e"
    and floor: "floor = (case pc_Expiration slep of
                           Some x \<Rightarrow> min x (parentCloseTime view + pc_SettleDelay slep)
                         | None \<Rightarrow> parentCloseTime view + pc_SettleDelay slep)"
  shows "(e < floor \<longrightarrow> PayChanFund_doApply ext view tx = (temBAD_EXPIRATION, view))
       \<and> (floor \<le> e \<longrightarrow>
            fst (PayChanFund_doApply ext view tx) \<noteq> temBAD_EXPIRATION
          \<and> (isXRP (fu_Amount tx) \<or> fst (PayChanFund_doApply ext view tx) = tesSUCCESS \<longrightarrow>
               map_option pc_Expiration
                 (peekPayChan (snd (PayChanFund_doApply ext view tx)) (fu_Channel tx))
               = Some (Some e)))"
proof -
  have notel: "\<not> ((case pc_CancelAfter slep of Some c \<Rightarrow> parentCloseTime view \<ge> c | None \<Rightarrow> False)
         \<or> (case pc_Expiration slep of Some e \<Rightarrow> parentCloseTime view \<ge> e | None \<Rightarrow> False))"
    using open1 open2 by (auto split: option.splits)
  have dry': "(if \<not> isXRP (fu_Amount tx) \<and> featurePaychanAndEscrowForTokens \<in> enabled view
                 then fst (trustAdjustLockedBalance ext view
                        (K_line (pc_Account slep) (getIssuer (fu_Amount tx))
                           (getCurrency (fu_Amount tx)))
                        (fu_Amount tx) 1 DryRun)
                 else tesSUCCESS) = tesSUCCESS"
    using dry by auto
  have fl: "(case pc_Expiration slep of
               Some x \<Rightarrow> if x < parentCloseTime view + pc_SettleDelay slep then x
                         else parentCloseTime view + pc_SettleDelay slep
             | None \<Rightarrow> parentCloseTime view + pc_SettleDelay slep) = floor"
    unfolding floor by (auto simp: min_def split: option.splits)
  have run: "PayChanFund_doApply ext view tx =
      (if e < floor then (temBAD_EXPIRATION, view)
       else fundChannel ext
              (put view (K_payChan (fu_Channel tx))
                 (PayChanSLE (slep\<lparr>pc_Expiration := Some e\<rparr>)))
              tx (slep\<lparr>pc_Expiration := Some e\<rparr>))"
    using notel dry' owner
    by (simp add: PayChanFund_doApply_def chan ext Let_def fl)
  have stored: "peekPayChan (put view (K_payChan (fu_Channel tx))
                 (PayChanSLE (slep\<lparr>pc_Expiration := Some e\<rparr>))) (fu_Channel tx)
                = Some (slep\<lparr>pc_Expiration := Some e\<rparr>)"
    by (simp add: peekPayChan_def put_def)
  show ?thesis
    using fundChannel_keeps_expiration [OF stored, of ext]
      fundChannel_not_BAD_EXPIRATION
        [of ext "put view (K_payChan (fu_Channel tx))
                   (PayChanSLE (slep\<lparr>pc_Expiration := Some e\<rparr>))"
            tx "slep\<lparr>pc_Expiration := Some e\<rparr>"]
    by (auto simp: run)
qed

text \<open>
  C8, amended. For every PayChanFund that supplies an Expiration, sent by the channel's
  owner to an existing channel neither of whose cancelAfter and expiration has elapsed,
  whose Amount is XRP or passes the locked-balance dry run, and where
  parentCloseTime + settleDelay fits the 32-bit time field: the fund fails with
  \<open>temBAD_EXPIRATION\<close> when the supplied expiration is below the floor, where the floor
  is parentCloseTime + settleDelay, except that when the channel's current expiration is
  already earlier than that, the current expiration is the floor. Otherwise the fund
  does not fail with \<open>temBAD_EXPIRATION\<close>, and the supplied value is the channel's
  expiration afterwards (for an XRP fund whatever the later checks return, for a token
  fund when it succeeds). The claim says nothing of sums beyond 32 bits.
\<close>

theorem PayChanFund_expiration_floor:
  assumes chan: "peekPayChan view (fu_Channel tx) = Some slep"
    and dry: "isXRP (fu_Amount tx) \<or> featurePaychanAndEscrowForTokens \<notin> enabled view
              \<or> fst (trustAdjustLockedBalance ext view
                        (K_line (pc_Account slep) (getIssuer (fu_Amount tx))
                           (getCurrency (fu_Amount tx)))
                        (fu_Amount tx) 1 DryRun) = tesSUCCESS"
    and open1: "\<forall>c. pc_CancelAfter slep = Some c \<longrightarrow> parentCloseTime view < c"
    and open2: "\<forall>x. pc_Expiration slep = Some x \<longrightarrow> parentCloseTime view < x"
    and owner: "fu_Account tx = pc_Account slep"
    and ext: "fu_Expiration tx = Some e"
    and fits: "unat (parentCloseTime view) + unat (pc_SettleDelay slep) < 2 ^ 32"
    and floor: "floor = (case pc_Expiration slep of
                           Some x \<Rightarrow> min (unat x)
                                      (unat (parentCloseTime view) + unat (pc_SettleDelay slep))
                         | None \<Rightarrow> unat (parentCloseTime view) + unat (pc_SettleDelay slep))"
  shows "(unat e < floor \<longrightarrow> PayChanFund_doApply ext view tx = (temBAD_EXPIRATION, view))
       \<and> (floor \<le> unat e \<longrightarrow>
            fst (PayChanFund_doApply ext view tx) \<noteq> temBAD_EXPIRATION
          \<and> (isXRP (fu_Amount tx) \<or> fst (PayChanFund_doApply ext view tx) = tesSUCCESS \<longrightarrow>
               map_option pc_Expiration
                 (peekPayChan (snd (PayChanFund_doApply ext view tx)) (fu_Channel tx))
               = Some (Some e)))"
proof -
  define wfloor where "wfloor = (case pc_Expiration slep of
                           Some x \<Rightarrow> min x (parentCloseTime view + pc_SettleDelay slep)
                         | None \<Rightarrow> parentCloseTime view + pc_SettleDelay slep)"
  have sum: "unat (parentCloseTime view + pc_SettleDelay slep)
               = unat (parentCloseTime view) + unat (pc_SettleDelay slep)"
    using fits by (simp add: unat_word_ariths)
  have fl: "unat wfloor = floor"
    unfolding wfloor_def floor
    by (auto simp: sum min_def word_le_nat_alt split: option.splits)
  have lt: "e < wfloor \<longleftrightarrow> unat e < floor"
    by (simp add: word_less_nat_alt fl)
  have le: "wfloor \<le> e \<longleftrightarrow> floor \<le> unat e"
    by (simp add: word_le_nat_alt fl)
  from PayChanFund_expiration_floor_word [OF chan dry open1 open2 owner ext wfloor_def]
  show ?thesis unfolding lt le .
qed

text \<open>
  C8, witness. The channel without expiration has the floor 700086400: the owner's
  fund is refused one second below it and stores 700086400 at it. The channel whose
  expiration 700000100 is earlier has that as its floor: the fund is refused at
  700000099 and stores the new value 700000150.
\<close>

theorem PayChanFund_expiration_floor_witness:
  "PayChanFund_doApply (collab (\<lambda>_. tesSUCCESS)) (view_chan chan9 {})
      (fund_xrp 1 (Some 700086399)) = (temBAD_EXPIRATION, view_chan chan9 {})
   \<and> pc_Expiration chan9 = None
   \<and> map_option pc_Expiration
        (peekPayChan (snd (PayChanFund_doApply (collab (\<lambda>_. tesSUCCESS))
            (view_chan chan9 {}) (fund_xrp 1 (Some 700086400)))) 9)
      = Some (Some 700086400)
   \<and> PayChanFund_doApply (collab (\<lambda>_. tesSUCCESS)) (view_chan chan_expiring {})
      (fund_xrp 1 (Some 700000099)) = (temBAD_EXPIRATION, view_chan chan_expiring {})
   \<and> pc_Expiration chan_expiring = Some 700000100
   \<and> map_option pc_Expiration
        (peekPayChan (snd (PayChanFund_doApply (collab (\<lambda>_. tesSUCCESS))
            (view_chan chan_expiring {}) (fund_xrp 1 (Some 700000150)))) 9)
      = Some (Some 700000150)"
proof -
  have p: "peekPayChan (view_chan c {}) (fu_Channel (fund_xrp 1 x)) = Some c" for c x
    by (simp add: view_chan_simps fund_xrp_def)
  have ch: "fu_Channel (fund_xrp 1 x) = 9" for x
    by (simp add: fund_xrp_def)
  have x: "isXRP (fu_Amount (fund_xrp 1 x))" for x
    by (simp add: fund_xrp_def)
  have d: "isXRP (fu_Amount (fund_xrp 1 x)) \<or> P \<or> Q" for x P Q
    by (simp add: fund_xrp_def)
  have o1: "\<forall>c. pc_CancelAfter chan9 = Some c \<longrightarrow> parentCloseTime (view_chan chan9 {}) < c"
    "\<forall>c. pc_CancelAfter chan_expiring = Some c
         \<longrightarrow> parentCloseTime (view_chan chan_expiring {}) < c"
    by (simp_all add: chan9_def chan_expiring_def)
  have o2: "\<forall>x. pc_Expiration chan9 = Some x \<longrightarrow> parentCloseTime (view_chan chan9 {}) < x"
    "\<forall>x. pc_Expiration chan_expiring = Some x
         \<longrightarrow> parentCloseTime (view_chan chan_expiring {}) < x"
    by (simp_all add: chan9_def chan_expiring_def view_chan_simps)
  have ow: "fu_Account (fund_xrp 1 x) = pc_Account chan9"
    "fu_Account (fund_xrp 1 x) = pc_Account chan_expiring" for x
    by (simp_all add: fund_xrp_def chan9_def chan_expiring_def)
  have ex: "fu_Expiration (fund_xrp 1 (Some x)) = Some x" for x
    by (simp add: fund_xrp_def)
  have ft: "unat (parentCloseTime (view_chan chan9 {})) + unat (pc_SettleDelay chan9) < 2 ^ 32"
    "unat (parentCloseTime (view_chan chan_expiring {})) + unat (pc_SettleDelay chan_expiring)
       < 2 ^ 32"
    by (simp_all add: chan9_def chan_expiring_def view_chan_simps)
  have fl1: "(700086400 :: nat) = (case pc_Expiration chan9 of
        Some x \<Rightarrow> min (unat x) (unat (parentCloseTime (view_chan chan9 {}))
                                  + unat (pc_SettleDelay chan9))
      | None \<Rightarrow> unat (parentCloseTime (view_chan chan9 {})) + unat (pc_SettleDelay chan9))"
    by (simp add: chan9_def view_chan_simps)
  have fl2: "(700000100 :: nat) = (case pc_Expiration chan_expiring of
        Some x \<Rightarrow> min (unat x) (unat (parentCloseTime (view_chan chan_expiring {}))
                                  + unat (pc_SettleDelay chan_expiring))
      | None \<Rightarrow> unat (parentCloseTime (view_chan chan_expiring {}))
                 + unat (pc_SettleDelay chan_expiring))"
    by (simp add: chan9_def chan_expiring_def view_chan_simps)
  have n: "unat (700086399 :: 32 word) < 700086400" "700086400 \<le> unat (700086400 :: 32 word)"
    "unat (700000099 :: 32 word) < 700000100" "700000100 \<le> unat (700000150 :: 32 word)"
    by simp_all
  note A = PayChanFund_expiration_floor [where view = "view_chan chan9 {}"
      and tx = "fund_xrp 1 (Some 700086399)" and slep = chan9
      and ext = "collab (\<lambda>_. tesSUCCESS)" and e = 700086399 and floor = 700086400,
      OF p d o1(1) o2(1) ow(1) ex ft(1) fl1]
  note B = PayChanFund_expiration_floor [where view = "view_chan chan9 {}"
      and tx = "fund_xrp 1 (Some 700086400)" and slep = chan9
      and ext = "collab (\<lambda>_. tesSUCCESS)" and e = 700086400 and floor = 700086400,
      OF p d o1(1) o2(1) ow(1) ex ft(1) fl1, unfolded ch]
  note C = PayChanFund_expiration_floor [where view = "view_chan chan_expiring {}"
      and tx = "fund_xrp 1 (Some 700000099)" and slep = chan_expiring
      and ext = "collab (\<lambda>_. tesSUCCESS)" and e = 700000099 and floor = 700000100,
      OF p d o1(2) o2(2) ow(2) ex ft(2) fl2]
  note D = PayChanFund_expiration_floor [where view = "view_chan chan_expiring {}"
      and tx = "fund_xrp 1 (Some 700000150)" and slep = chan_expiring
      and ext = "collab (\<lambda>_. tesSUCCESS)" and e = 700000150 and floor = 700000100,
      OF p d o1(2) o2(2) ow(2) ex ft(2) fl2, unfolded ch]
  from A n(1) have a: "PayChanFund_doApply (collab (\<lambda>_. tesSUCCESS)) (view_chan chan9 {})
      (fund_xrp 1 (Some 700086399)) = (temBAD_EXPIRATION, view_chan chan9 {})"
    by blast
  from B n(2) x have b: "map_option pc_Expiration
        (peekPayChan (snd (PayChanFund_doApply (collab (\<lambda>_. tesSUCCESS))
            (view_chan chan9 {}) (fund_xrp 1 (Some 700086400)))) 9)
      = Some (Some 700086400)"
    by blast
  from C n(3) have c: "PayChanFund_doApply (collab (\<lambda>_. tesSUCCESS))
      (view_chan chan_expiring {}) (fund_xrp 1 (Some 700000099))
        = (temBAD_EXPIRATION, view_chan chan_expiring {})"
    by blast
  from D n(4) x have d': "map_option pc_Expiration
        (peekPayChan (snd (PayChanFund_doApply (collab (\<lambda>_. tesSUCCESS))
            (view_chan chan_expiring {}) (fund_xrp 1 (Some 700000150)))) 9)
      = Some (Some 700000150)"
    by blast
  have e0: "pc_Expiration chan9 = None" "pc_Expiration chan_expiring = Some 700000100"
    by (simp_all add: chan9_def chan_expiring_def)
  from a b c d' e0 show ?thesis by (intro conjI)
qed

text \<open>
  Beyond the amended claim: with the settle delay 4294967295 the sum
  parentCloseTime + settleDelay is 4994967295, the 32-bit sum wraps to 699999999, and
  the owner's Expiration 700000000, the close time itself, is accepted and stored.
\<close>

lemma PayChanFund_expiration_floor_wraps:
  "unat (parentCloseTime (view_chan chan_max_delay {})) + unat (pc_SettleDelay chan_max_delay)
     = 4994967295
   \<and> parentCloseTime (view_chan chan_max_delay {}) + pc_SettleDelay chan_max_delay = 699999999
   \<and> fst (PayChanFund_doApply (collab (\<lambda>_. tesSUCCESS)) (view_chan chan_max_delay {})
            (fund_xrp 1 (Some 700000000))) = tesSUCCESS
   \<and> map_option pc_Expiration
        (peekPayChan (snd (PayChanFund_doApply (collab (\<lambda>_. tesSUCCESS))
            (view_chan chan_max_delay {}) (fund_xrp 1 (Some 700000000)))) 9)
      = Some (Some 700000000)"
  by (simp add: PayChanFund_doApply_def fundChannel_def view_chan_simps fund_xrp_def
      chan_max_delay_def chan9_def Let_def view_chan_def peekAccount_def peekPayChan_def put_def)

subsection \<open>C9: the authorized amount when Amount is absent\<close>

lemma be_bytes_numeral:
  "be_bytes (numeral k) x = be_bytes (pred_numeral k) (x div 256) @ [of_nat (x mod 256)]"
proof -
  have "be_bytes (numeral k) x = be_bytes (Suc (pred_numeral k)) x"
    by (simp only: numeral_eq_Suc)
  then show ?thesis by (simp only: be_bytes.simps)
qed

text \<open>
  C9 fails on the code. The claim below carries Balance 40000, no Amount, and a
  signature that is canonical for \<open>"CLM\0"\<close>, channel 9 and 40000 drops. The
  authorized amount is \<open>*amt ? *amt : reqBalance\<close>, which reads the empty optional.
  Where that read yields 50000 drops the message is built for 50000 and the valid
  signature is refused with \<open>temBAD_SIGNATURE\<close>; the amount is the Balance only where
  the read happens to yield zero.
\<close>

theorem PayChanClaim_preflight_absent_amount:
  "cl_Amount (claim_tx 2 40000 (Some (serializePayChanAuthorization 9 40000))) = None
   \<and> verify (collab (\<lambda>_. tesSUCCESS)) [2, 171] (serializePayChanAuthorization 9 40000)
        (serializePayChanAuthorization 9 40000)
   \<and> PayChanClaim_preflight (collab (\<lambda>_. tesSUCCESS)) {} (XRPAmount 50000)
        (claim_tx 2 40000 (Some (serializePayChanAuthorization 9 40000))) = temBAD_SIGNATURE
   \<and> PayChanClaim_preflight (collab (\<lambda>_. tesSUCCESS)) {} (XRPAmount 0)
        (claim_tx 2 40000 (Some (serializePayChanAuthorization 9 40000))) = tesSUCCESS"
proof -
  have ne: "serializePayChanAuthorization 9 50000 \<noteq> serializePayChanAuthorization 9 40000"
    by (simp add: serializePayChanAuthorization_def be_bytes_numeral)
  show ?thesis
    using ne
    by (simp add: PayChanClaim_preflight_def claim_tx_def collab_def tfClose_def tfRenew_def
        Let_def)
qed

end
